theory Spec2Isabelle
  imports Main "HOL-Library.AList" "HOL-Library.Char_ord" "HOL-Library.List_Lexorder"
    "HOL-Library.Product_Lexorder"
begin

section \<open>A favourite-colour REST service in two variants\<close>

text \<open>
  The repository holds two variants of one Hono/Deno server: \<^verbatim>\<open>src/server.js\<close>
  (definitions with the suffix \<open>_A\<close>) and \<^verbatim>\<open>src/unnamed/part_000\<close> (suffix
  \<open>_B\<close>). Every route handler is an async JavaScript function that reads the request,
  reads and writes the Deno KV store and answers with a response. A handler is embedded as
  a function from the store (and the values the handler obtains from its surroundings: the
  request fields, the clock, the library functions) to an outcome: the response together
  with the store it leaves, or \<open>Throw\<close> when the handler ends by an exception.

  Strings are byte lists; the Japanese message literals of the source are written as
  their UTF-8 bytes.
\<close>

subsection \<open>JavaScript values\<close>

datatype json =
    JNull
  | JBool bool
  | JNum int
  | JStr string
  | JArr "json list"
  | JObj "(string \<times> json) list"

text \<open>
  An object is its list of properties in insertion order. Assigning \<^verbatim>\<open>o[k] = v\<close>
  replaces the value of an existing property in place and appends a new one.
\<close>

type_synonym jsobject = "(string \<times> json) list"

definition obj_get :: "jsobject \<Rightarrow> string \<Rightarrow> json option" where
  "obj_get r k = map_of r k"

definition obj_set :: "jsobject \<Rightarrow> string \<Rightarrow> json \<Rightarrow> jsobject" where
  "obj_set r k v = AList.update k v r"

text \<open>
  The value that \<^verbatim>\<open>JSON.parse(body['record'])\<close> yields and that the handlers assign
  properties to. An object is its properties. An array is its elements together with
  the named properties assigned to it: \<^verbatim>\<open>record.author = ...\<close> on an array adds a
  property and leaves \<^verbatim>\<open>length\<close> and the elements alone, the store keeps the named
  properties of an array, and \<^verbatim>\<open>JSON.stringify\<close> (\<^verbatim>\<open>c.json\<close>) writes the elements
  only. On \<^verbatim>\<open>null\<close>, a number, a string or a boolean the assignment of a property throws
  (module code is strict), so these are no records (\<open>as_record\<close>). Only the names
  \<^verbatim>\<open>author\<close>, \<^verbatim>\<open>createdAt\<close>, \<^verbatim>\<open>id\<close> and \<^verbatim>\<open>isFavorite\<close> are read or assigned.
\<close>

datatype jsval = Object jsobject | Array "json list" jsobject

definition as_record :: "json \<Rightarrow> jsval option" where
  "as_record j =
     (case j of JObj props \<Rightarrow> Some (Object props) | JArr elems \<Rightarrow> Some (Array elems []) | _ \<Rightarrow> None)"

definition get_prop :: "jsval \<Rightarrow> string \<Rightarrow> json option" where
  "get_prop v k = (case v of Object props \<Rightarrow> obj_get props k | Array elems props \<Rightarrow> obj_get props k)"

definition set_prop :: "jsval \<Rightarrow> string \<Rightarrow> json \<Rightarrow> jsval" where
  "set_prop v k x =
     (case v of
        Object props \<Rightarrow> Object (obj_set props k x)
      | Array elems props \<Rightarrow> Array elems (obj_set props k x))"

definition to_json :: "jsval \<Rightarrow> json" where
  "to_json v = (case v of Object props \<Rightarrow> JObj props | Array elems props \<Rightarrow> JArr elems)"

text \<open>
  A request field that is either a string or \<^verbatim>\<open>undefined\<close> is a \<open>string option\<close>.
  JavaScript's truthiness (\<^verbatim>\<open>if (x)\<close>, \<^verbatim>\<open>!x\<close>) on such a value: \<^verbatim>\<open>undefined\<close> and
  the empty string are falsy, every other string is truthy.
\<close>

definition truthy :: "string option \<Rightarrow> bool" where
  "truthy v = (case v of None \<Rightarrow> False | Some s \<Rightarrow> s \<noteq> [])"

text \<open>\<^verbatim>\<open>n.toString()\<close> for a non-negative integer below \<open>10^21\<close>: its decimal digits.\<close>

fun Number_toString :: "nat \<Rightarrow> string" where
  "Number_toString n =
     (if n < 10 then [char_of (48 + n)]
      else Number_toString (n div 10) @ [char_of (48 + n mod 10)])"

declare Number_toString.simps [simp del]

subsection \<open>The key-value store\<close>

text \<open>
  Modelled from the spec: Deno KV is outside the sources; the spec (section 1) treats it
  as "an ordered, prefix-scannable key-value store with atomic single-key counters".
  The entries under one key prefix are a list of key-value pairs kept in ascending key
  order, one entry per key: \<open>kv_get\<close> is \<^verbatim>\<open>kv.get\<close> (its \<^verbatim>\<open>.value\<close> is \<^verbatim>\<open>null\<close>,
  here \<open>None\<close>, for a key that is not stored), \<open>kv_set\<close> is \<^verbatim>\<open>kv.set\<close>, \<open>kv_delete\<close>
  is \<^verbatim>\<open>kv.delete\<close>, and \<^verbatim>\<open>kv.list({prefix})\<close> yields the list itself, in key order.
\<close>

definition kv_get :: "('k \<times> 'v) list \<Rightarrow> 'k \<Rightarrow> 'v option" where
  "kv_get es k = map_of es k"

fun kv_set :: "('k::linorder \<times> 'v) list \<Rightarrow> 'k \<Rightarrow> 'v \<Rightarrow> ('k \<times> 'v) list" where
  "kv_set [] k v = [(k, v)]"
| "kv_set ((k', v') # es) k v =
     (if k = k' then (k, v) # es
      else if k < k' then (k, v) # (k', v') # es
      else (k', v') # kv_set es k v)"

definition kv_delete :: "('k \<times> 'v) list \<Rightarrow> 'k \<Rightarrow> ('k \<times> 'v) list" where
  "kv_delete es k = filter (\<lambda>e. fst e \<noteq> k) es"

text \<open>
  \<^verbatim>\<open>kv.atomic().sum(key, 1n)\<close> adds to a 64-bit unsigned counter (an unset key counts
  as 0) and wraps around; \<^verbatim>\<open>Number(counter.value)\<close> converts the counter to a double,
  which is exact below \<open>2^53\<close> and rounds to the nearest double (ties to even) above.
\<close>

definition kv_sum :: "nat \<Rightarrow> nat \<Rightarrow> nat" where
  "kv_sum c d = (c + d) mod 2 ^ 64"

fun bit_length :: "nat \<Rightarrow> nat" where
  "bit_length n = (if n = 0 then 0 else Suc (bit_length (n div 2)))"

declare bit_length.simps [simp del]

definition Number_of_u64 :: "nat \<Rightarrow> nat" where
  "Number_of_u64 n =
     (if n < 2 ^ 53 then n
      else let e = bit_length n - 53; q = n div 2 ^ e; r = n mod 2 ^ e; h = 2 ^ (e - 1)
           in if h < r \<or> (r = h \<and> odd q) then (q + 1) * 2 ^ e else q * 2 ^ e)"

text \<open>
  The store of the service. \<open>users\<close> are the entries under \<^verbatim>\<open>['users', username]\<close>,
  \<open>colors\<close> those under \<^verbatim>\<open>['colors', id]\<close> (the id is a decimal string in
  \<^verbatim>\<open>server.js\<close> and a number in \<^verbatim>\<open>part_000\<close>), \<open>favorites\<close> those under
  \<^verbatim>\<open>['favorites', username, id]\<close>, whose value is always \<^verbatim>\<open>true\<close> (only
  \<^verbatim>\<open>server.js\<close> has them), and \<open>counter\<close> is the value under
  \<^verbatim>\<open>['counter', 'colors']\<close> (only \<^verbatim>\<open>part_000\<close> has it).
\<close>

record user =
  username :: string
  hashedPassword :: string

record 'id store =
  users :: "(string \<times> user) list"
  colors :: "('id \<times> jsval) list"
  favorites :: "((string \<times> string) \<times> unit) list"
  counter :: nat

subsection \<open>Responses\<close>

datatype body = JsonBody json | TextBody string | NoBody

datatype cookie_op =
    SetCookie string nat  \<comment> \<open>\<^verbatim>\<open>setCookie(c, COOKIE_NAME, token, {..., maxAge})\<close>\<close>
  | DeleteCookie          \<comment> \<open>\<^verbatim>\<open>deleteCookie(c, COOKIE_NAME)\<close>\<close>

record response =
  status :: nat
  body :: body
  location :: "string option"
  cookie :: "cookie_op option"

datatype 's outcome = Respond response 's | Throw

text \<open>\<^verbatim>\<open>c.json(value, status)\<close>; the status is 200 when none is given or set.\<close>

definition json_response :: "nat \<Rightarrow> json \<Rightarrow> response" where
  "json_response st j = \<lparr>status = st, body = JsonBody j, location = None, cookie = None\<rparr>"

definition message :: "string \<Rightarrow> json" where
  "message m = JObj [(''message'', JStr m)]"

text \<open>
  Hono answers a handler's uncaught exception with 500 "Internal Server Error" and the
  store as the handler left it; no handler of the service writes before it can throw.
\<close>

definition internal_error :: response where
  "internal_error =
     \<lparr>status = 500, body = TextBody ''Internal Server Error'', location = None, cookie = None\<rparr>"

definition response_of :: "'s outcome \<Rightarrow> response" where
  "response_of out = (case out of Respond r s \<Rightarrow> r | Throw \<Rightarrow> internal_error)"

definition store_after :: "'s \<Rightarrow> 's outcome \<Rightarrow> 's" where
  "store_after s out = (case out of Respond r s' \<Rightarrow> s' | Throw \<Rightarrow> s)"

subsection \<open>The message literals\<close>

definition msg_used_A :: string where  \<comment> \<open>server.js line 20\<close>
  "msg_used_A = [CHR 0xE4, CHR 0xBD, CHR 0xBF, CHR 0xE7, CHR 0x94, CHR 0xA8, CHR 0xE6, CHR 0xB8,
     CHR 0x88, CHR 0xE3, CHR 0x81, CHR 0xBF]"

definition msg_success_A :: string where  \<comment> \<open>server.js line 23\<close>
  "msg_success_A = [CHR 0xE6, CHR 0x88, CHR 0x90, CHR 0xE5, CHR 0x8A, CHR 0x9F]"

definition msg_invalid_A :: string where  \<comment> \<open>server.js line 32\<close>
  "msg_invalid_A = [CHR 0xE7, CHR 0x84, CHR 0xA1, CHR 0xE5, CHR 0x8A, CHR 0xB9]"

definition msg_login_ok :: string where  \<comment> \<open>server.js line 51, part_000 line 82\<close>
  "msg_login_ok = [CHR 0xE3, CHR 0x83, CHR 0xAD, CHR 0xE3, CHR 0x82, CHR 0xB0, CHR 0xE3, CHR 0x82,
     CHR 0xA4, CHR 0xE3, CHR 0x83, CHR 0xB3, CHR 0xE6, CHR 0x88, CHR 0x90, CHR 0xE5, CHR 0x8A,
     CHR 0x9F]"

definition msg_required_B :: string where  \<comment> \<open>part_000 line 33\<close>
  "msg_required_B = [CHR 0xE3, CHR 0x83, CHR 0xA6, CHR 0xE3, CHR 0x83, CHR 0xBC, CHR 0xE3, CHR 0x82,
     CHR 0xB6, CHR 0xE3, CHR 0x83, CHR 0xBC, CHR 0xE5, CHR 0x90, CHR 0x8D, CHR 0xE3, CHR 0x81,
     CHR 0xA8, CHR 0xE3, CHR 0x83, CHR 0x91, CHR 0xE3, CHR 0x82, CHR 0xB9, CHR 0xE3, CHR 0x83,
     CHR 0xAF, CHR 0xE3, CHR 0x83, CHR 0xBC, CHR 0xE3, CHR 0x83, CHR 0x89, CHR 0xE3, CHR 0x81,
     CHR 0xAF, CHR 0xE5, CHR 0xBF, CHR 0x85, CHR 0xE9, CHR 0xA0, CHR 0x88, CHR 0xE3, CHR 0x81,
     CHR 0xA7, CHR 0xE3, CHR 0x81, CHR 0x99]"

definition msg_used_B :: string where  \<comment> \<open>part_000 line 39\<close>
  "msg_used_B = [CHR 0xE3, CHR 0x81, CHR 0x93, CHR 0xE3, CHR 0x81, CHR 0xAE, CHR 0xE3, CHR 0x83,
     CHR 0xA6, CHR 0xE3, CHR 0x83, CHR 0xBC, CHR 0xE3, CHR 0x82, CHR 0xB6, CHR 0xE3, CHR 0x83,
     CHR 0xBC, CHR 0xE5, CHR 0x90, CHR 0x8D, CHR 0xE3, CHR 0x81, CHR 0xAF, CHR 0xE6, CHR 0x97,
     CHR 0xA2, CHR 0xE3, CHR 0x81, CHR 0xAB, CHR 0xE4, CHR 0xBD, CHR 0xBF, CHR 0xE7, CHR 0x94,
     CHR 0xA8, CHR 0xE3, CHR 0x81, CHR 0x95, CHR 0xE3, CHR 0x82, CHR 0x8C, CHR 0xE3, CHR 0x81,
     CHR 0xA6, CHR 0xE3, CHR 0x81, CHR 0x84, CHR 0xE3, CHR 0x81, CHR 0xBE, CHR 0xE3, CHR 0x81,
     CHR 0x99]"

definition msg_bad_username_B :: string where  \<comment> \<open>part_000 line 58\<close>
  "msg_bad_username_B = [CHR 0xE3, CHR 0x83, CHR 0xA6, CHR 0xE3, CHR 0x83, CHR 0xBC, CHR 0xE3,
     CHR 0x82, CHR 0xB6, CHR 0xE3, CHR 0x83, CHR 0xBC, CHR 0xE5, CHR 0x90, CHR 0x8D, CHR 0xE3,
     CHR 0x81, CHR 0x8C, CHR 0xE7, CHR 0x84, CHR 0xA1, CHR 0xE5, CHR 0x8A, CHR 0xB9, CHR 0xE3,
     CHR 0x81, CHR 0xA7, CHR 0xE3, CHR 0x81, CHR 0x99]"

definition msg_bad_password_B :: string where  \<comment> \<open>part_000 line 63\<close>
  "msg_bad_password_B = [CHR 0xE3, CHR 0x83, CHR 0x91, CHR 0xE3, CHR 0x82, CHR 0xB9, CHR 0xE3,
     CHR 0x83, CHR 0xAF, CHR 0xE3, CHR 0x83, CHR 0xBC, CHR 0xE3, CHR 0x83, CHR 0x89, CHR 0xE3,
     CHR 0x81, CHR 0x8C, CHR 0xE7, CHR 0x84, CHR 0xA1, CHR 0xE5, CHR 0x8A, CHR 0xB9, CHR 0xE3,
     CHR 0x81, CHR 0xA7, CHR 0xE3, CHR 0x81, CHR 0x99]"

definition msg_registered_B :: string where  \<comment> \<open>part_000 line 47\<close>
  "msg_registered_B = [CHR 0xE3, CHR 0x83, CHR 0xA6, CHR 0xE3, CHR 0x83, CHR 0xBC, CHR 0xE3,
     CHR 0x82, CHR 0xB6, CHR 0xE3, CHR 0x83, CHR 0xBC, CHR 0xE7, CHR 0x99, CHR 0xBB, CHR 0xE9,
     CHR 0x8C, CHR 0xB2, CHR 0xE3, CHR 0x81, CHR 0x8C, CHR 0xE6, CHR 0x88, CHR 0x90, CHR 0xE5,
     CHR 0x8A, CHR 0x9F, CHR 0xE3, CHR 0x81, CHR 0x97, CHR 0xE3, CHR 0x81, CHR 0xBE, CHR 0xE3,
     CHR 0x81, CHR 0x97, CHR 0xE3, CHR 0x81, CHR 0x9F]"

subsection \<open>Configuration and start-up\<close>

definition COOKIE_NAME :: string where
  "COOKIE_NAME = ''auth_token''"

definition EXP_TIME :: nat where  \<comment> \<open>server.js line 11; part_000 writes the product out\<close>
  "EXP_TIME = 60 * 60 * 24"




subsection \<open>Sign-up and login\<close>

text \<open>
  The handlers destructure \<^verbatim>\<open>{ username, password }\<close> from the JSON body: each is a
  string, or \<^verbatim>\<open>undefined\<close> when the body has no such field (\<open>username_in\<close>,
  \<open>password_in\<close>). \<^verbatim>\<open>kv.get\<close> throws on a key part that is \<^verbatim>\<open>undefined\<close>.
  The bcrypt functions are parameters: \<open>hash\<close> yields the salted hash of its argument and
  \<open>verify\<close> the result of the comparison, \<open>None\<close> when the call throws.
\<close>

definition signup_A ::
  "(string option \<Rightarrow> string option) \<Rightarrow> 'id store \<Rightarrow> string option \<Rightarrow> string option
    \<Rightarrow> 'id store outcome" where
  "signup_A hash s username_in password_in =
     (case username_in of
        None \<Rightarrow> Throw
      | Some u \<Rightarrow>
          (case kv_get (users s) u of
             Some userExists \<Rightarrow> Respond (json_response 409 (message msg_used_A)) s
           | None \<Rightarrow>
               (case hash password_in of
                  None \<Rightarrow> Throw
                | Some hashed \<Rightarrow>
                    Respond (json_response 201 (message msg_success_A))
                      (s\<lparr>users := kv_set (users s) u \<lparr>username = u, hashedPassword = hashed\<rparr>\<rparr>))))"

definition signup_B ::
  "(string option \<Rightarrow> string option) \<Rightarrow> 'id store \<Rightarrow> string option \<Rightarrow> string option
    \<Rightarrow> 'id store outcome" where
  "signup_B hash s username_in password_in =
     (if \<not> truthy username_in \<or> \<not> truthy password_in
      then Respond (json_response 400 (message msg_required_B)) s
      else
        (case username_in of
           None \<Rightarrow> Throw
         | Some u \<Rightarrow>
             (case kv_get (users s) u of
                Some userExists \<Rightarrow> Respond (json_response 409 (message msg_used_B)) s
              | None \<Rightarrow>
                  (case hash password_in of
                     None \<Rightarrow> Throw
                   | Some hashed \<Rightarrow>
                       Respond (json_response 201 (message msg_registered_B))
                         (s\<lparr>users := kv_set (users s) u
                              \<lparr>username = u, hashedPassword = hashed\<rparr>\<rparr>)))))"

text \<open>
  The token payload. \<open>sign\<close> (the library's \<^verbatim>\<open>sign(payload, secret)\<close>) is a parameter.
  \<open>now\<close> is what \<^verbatim>\<open>Date.now()\<close> returns, in milliseconds; part_000 reads the clock
  twice.
\<close>

record payload =
  sub :: string
  iat :: "nat option"
  exp :: nat

definition login_ok :: "string \<Rightarrow> string \<Rightarrow> response" where
  "login_ok token name =
     \<lparr>status = 200,
      body = JsonBody (JObj [(''message'', JStr msg_login_ok), (''username'', JStr name)]),
      location = None,
      cookie = Some (SetCookie token EXP_TIME)\<rparr>"

definition login_A ::
  "(string option \<Rightarrow> string \<Rightarrow> bool option) \<Rightarrow> (payload \<Rightarrow> string \<Rightarrow> string) \<Rightarrow> string \<Rightarrow> nat
    \<Rightarrow> 'id store \<Rightarrow> string option \<Rightarrow> string option \<Rightarrow> 'id store outcome" where
  "login_A verify sign secret now s username_in password_in =
     (case username_in of
        None \<Rightarrow> Throw
      | Some u \<Rightarrow>
          (case kv_get (users s) u of
             None \<Rightarrow> Respond (json_response 401 (message msg_invalid_A)) s
           | Some user \<Rightarrow>
               (case verify password_in (hashedPassword user) of
                  None \<Rightarrow> Throw
                | Some False \<Rightarrow> Respond (json_response 401 (message msg_invalid_A)) s
                | Some True \<Rightarrow>
                    (let payload = \<lparr>sub = username user, iat = None,
                                     exp = now div 1000 + EXP_TIME\<rparr>;
                         token = sign payload secret
                     in Respond (login_ok token (username user)) s))))"

definition login_B ::
  "(string option \<Rightarrow> string \<Rightarrow> bool option) \<Rightarrow> (payload \<Rightarrow> string \<Rightarrow> string) \<Rightarrow> string \<Rightarrow> nat
    \<Rightarrow> nat \<Rightarrow> 'id store \<Rightarrow> string option \<Rightarrow> string option \<Rightarrow> 'id store outcome" where
  "login_B verify sign secret now1 now2 s username_in password_in =
     (case username_in of
        None \<Rightarrow> Throw
      | Some u \<Rightarrow>
          (case kv_get (users s) u of
             None \<Rightarrow> Respond (json_response 401 (message msg_bad_username_B)) s
           | Some user \<Rightarrow>
               (case verify password_in (hashedPassword user) of
                  None \<Rightarrow> Throw
                | Some False \<Rightarrow> Respond (json_response 401 (message msg_bad_password_B)) s
                | Some True \<Rightarrow>
                    (let payload = \<lparr>sub = username user, iat = Some (now1 div 1000),
                                     exp = now2 div 1000 + 60 * 60 * 24\<rparr>;
                         token = sign payload secret
                     in Respond (login_ok token (username user)) s))))"

subsection \<open>The authorization gate\<close>

text \<open>
  Modelled from the spec: the middleware that \<^verbatim>\<open>jwt({ secret, cookie })\<close> returns is the
  token library's and is not in the sources. Spec 4.4: it "extracts the session cookie; if
  absent, responds 401 Unauthorized and short-circuits", delegates to the token
  service's \<open>validate\<close> and "on Expired/Invalid, responds 401 and short-circuits"; on
  success it attaches the verified payload to the request context. \<open>validate\<close> (signature
  and expiry check of a token against a secret at a time) is a parameter; \<open>token\<close> is
  \<^verbatim>\<open>getCookie(c, COOKIE_NAME)\<close>.
\<close>

definition unauthorized :: response where
  "unauthorized = \<lparr>status = 401, body = TextBody ''Unauthorized'', location = None, cookie = None\<rparr>"

definition jwt_gate ::
  "(string \<Rightarrow> string \<Rightarrow> nat \<Rightarrow> payload option) \<Rightarrow> string \<Rightarrow> nat \<Rightarrow> string option
    \<Rightarrow> response + payload" where
  "jwt_gate validate secret now token =
     (case token of
        None \<Rightarrow> Inl unauthorized
      | Some t \<Rightarrow>
          (if t = [] then Inl unauthorized
           else (case validate t secret now of
                   None \<Rightarrow> Inl unauthorized
                 | Some p \<Rightarrow> Inr p)))"

subsection \<open>Session routes\<close>

definition check :: "'id store \<Rightarrow> payload \<Rightarrow> 'id store outcome" where
  "check s jwtPayload = Respond (json_response 200 (JObj [(''username'', JStr (sub jwtPayload))])) s"

definition logout :: "'id store \<Rightarrow> 'id store outcome" where
  "logout s =
     Respond \<lparr>status = 204, body = NoBody, location = None, cookie = Some DeleteCookie\<rparr> s"

subsection \<open>Colour records\<close>

text \<open>
  \<open>parsed\<close> is the value of \<^verbatim>\<open>JSON.parse(body['record'])\<close>, and \<open>None\<close> when that call
  throws (the form field is missing or is not JSON text). The three assignments throw
  when the value is no record. \<open>createdAt\<close> is \<^verbatim>\<open>new Date().toISOString()\<close> and \<open>now\<close>
  is \<^verbatim>\<open>Date.now()\<close>. The handlers' variables \<^verbatim>\<open>username\<close> (the token's \<^verbatim>\<open>sub\<close>) and
  \<^verbatim>\<open>id\<close> are written \<open>username'\<close> and \<open>id'\<close>.
\<close>

definition postColors_A ::
  "string store \<Rightarrow> string \<Rightarrow> json option \<Rightarrow> string \<Rightarrow> nat \<Rightarrow> string store outcome" where
  "postColors_A s username' parsed createdAt now =
     (case parsed of
        None \<Rightarrow> Throw
      | Some j \<Rightarrow>
          (case as_record j of
             None \<Rightarrow> Throw
           | Some record0 \<Rightarrow>
               (let record1 = set_prop record0 ''author'' (JStr username');
                    record2 = set_prop record1 ''createdAt'' (JStr createdAt);
                    id' = Number_toString now;
                    record3 = set_prop record2 ''id'' (JStr id')
                in Respond (json_response 200 (JObj [(''record'', to_json record3)]))
                     (s\<lparr>colors := kv_set (colors s) id' record3\<rparr>))))"

definition getNextId :: "nat store \<Rightarrow> nat store \<times> nat" where
  "getNextId s =
     (let s1 = s\<lparr>counter := kv_sum (counter s) 1\<rparr>
      in (s1, Number_of_u64 (counter s1)))"

definition postColors_B ::
  "nat store \<Rightarrow> string \<Rightarrow> json option \<Rightarrow> string \<Rightarrow> nat store outcome" where
  "postColors_B s username' parsed createdAt =
     (case parsed of
        None \<Rightarrow> Throw
      | Some j \<Rightarrow>
          (case as_record j of
             None \<Rightarrow> Throw
           | Some record0 \<Rightarrow>
               (let record1 = set_prop record0 ''author'' (JStr username');
                    record2 = set_prop record1 ''createdAt'' (JStr createdAt);
                    (s1, id') = getNextId s;
                    record3 = set_prop record2 ''id'' (JNum (int id'))
                in Respond (json_response 201 (JObj [(''record'', to_json record3)]))
                     (s1\<lparr>colors := kv_set (colors s1) id' record3\<rparr>))))"

text \<open>
  \<^verbatim>\<open>kv.get(['favorites', username, entry.value.id])\<close> in the listing of server.js: the
  key part is the record's own \<open>id\<close> property. A string is looked up; a number or a
  boolean is a valid key part under which nothing is ever stored; anything else makes
  \<^verbatim>\<open>kv.get\<close> throw (\<open>None\<close>). The result is \<^verbatim>\<open>!!fav.value\<close>.
\<close>

definition isFavorite :: "'id store \<Rightarrow> string \<Rightarrow> string \<Rightarrow> bool" where
  "isFavorite s username' id' = (kv_get (favorites s) (username', id') \<noteq> None)"

definition fav_of_entry :: "'id store \<Rightarrow> string \<Rightarrow> jsval \<Rightarrow> bool option" where
  "fav_of_entry s username' v =
     (case get_prop v ''id'' of
        Some (JStr i) \<Rightarrow> Some (isFavorite s username' i)
      | Some (JNum n) \<Rightarrow> Some False
      | Some (JBool b) \<Rightarrow> Some False
      | _ \<Rightarrow> None)"

text \<open>The \<^verbatim>\<open>for await\<close> loop of the listing: \<open>records\<close> is the array built so far.\<close>

fun collect_A :: "'id store \<Rightarrow> string \<Rightarrow> ('id \<times> jsval) list \<Rightarrow> jsval list \<Rightarrow> jsval list option" where
  "collect_A s username' [] records = Some records"
| "collect_A s username' (entry # list) records =
     (case fav_of_entry s username' (snd entry) of
        None \<Rightarrow> None
      | Some fav \<Rightarrow>
          collect_A s username' list (records @ [set_prop (snd entry) ''isFavorite'' (JBool fav)]))"

definition getColors_A :: "'id store \<Rightarrow> string \<Rightarrow> 'id store outcome" where
  "getColors_A s username' =
     (case collect_A s username' (colors s) [] of
        None \<Rightarrow> Throw
      | Some records \<Rightarrow> Respond (json_response 200 (JArr (map to_json (rev records)))) s)"

definition getColors_B :: "'id store \<Rightarrow> 'id store outcome" where
  "getColors_B s =
     (let records = colors s;
          data = rev (map snd records)
      in Respond (json_response 200 (JArr (map to_json data))) s)"

subsection \<open>Favourites (server.js only)\<close>

definition toggleFavorite :: "'id store \<Rightarrow> string \<Rightarrow> string \<Rightarrow> 'id store outcome" where
  "toggleFavorite s username' id' =
     (let key = (username', id');
          existing = kv_get (favorites s) key
      in (case existing of
            Some v \<Rightarrow>
              Respond (json_response 200 (JObj [(''favorite'', JBool False)]))
                (s\<lparr>favorites := kv_delete (favorites s) key\<rparr>)
          | None \<Rightarrow>
              Respond (json_response 200 (JObj [(''favorite'', JBool True)]))
                (s\<lparr>favorites := kv_set (favorites s) key ()\<rparr>)))"

definition me :: "'id store \<Rightarrow> string \<Rightarrow> 'id store outcome" where
  "me s username' =
     (let favIds = map (\<lambda>f. snd (fst f)) (filter (\<lambda>f. fst (fst f) = username') (favorites s));
          allList = map snd (colors s);
          myPosts = filter (\<lambda>v. get_prop v ''author'' = Some (JStr username')) allList;
          myFavorites =
            filter (\<lambda>v. case get_prop v ''id'' of Some (JStr i) \<Rightarrow> i \<in> set favIds | _ \<Rightarrow> False)
              allList
      in Respond (json_response 200
           (JObj [(''myPosts'', JArr (map to_json myPosts)),
                  (''myFavorites'', JArr (map to_json myFavorites))])) s)"

subsection \<open>The debug listing of user names (part_000 only)\<close>

definition users_B :: "'id store \<Rightarrow> 'id store outcome" where
  "users_B s =
     Respond (json_response 200 (JArr (map (\<lambda>entry. JStr (username (snd entry))) (users s)))) s"

subsection \<open>Routing\<close>

text \<open>
  Modelled from the spec: Hono's router is outside the sources (spec 1 excludes "the HTTP
  routing/dispatch framework"; spec 2: "client \<rightarrow> Authorization Gate (for protected routes)
  \<rightarrow> route handler"). The routes below are the registrations of the two files, in source
  order. For a request, the registered handlers whose method and path pattern match run
  in registration order: a handler that answers ends the chain, a middleware that calls
  \<^verbatim>\<open>next()\<close> hands over to the next one, an exception is answered with 500, and a chain
  that runs out is answered with 404. A path is its list of segments
  (\<^verbatim>\<open>/api/colors\<close> is \<open>[''api'', ''colors'']\<close>); \<open>Star\<close> is a trailing \<^verbatim>\<open>*\<close> and \<open>Param\<close>
  a \<^verbatim>\<open>:id\<close> segment.
\<close>

datatype http_method = GET | POST | OTHER

datatype handler =
    Signup | Login | Jwt | Check | Logout | PostColors | GetColors | Favorite | Me | Users
  | AuthPages | Static

datatype segment = Lit string | Param | Star

fun matches :: "segment list \<Rightarrow> string list \<Rightarrow> bool" where
  "matches [] [] = True"
| "matches (Star # ps) ss = True"
| "matches (Lit l # ps) (s # ss) = (l = s \<and> matches ps ss)"
| "matches (Param # ps) (s # ss) = (s \<noteq> [] \<and> matches ps ss)"
| "matches ps ss = False"

type_synonym route = "http_method option \<times> segment list \<times> handler"

definition routes_A :: "route list" where
  "routes_A =
     [(Some POST, [Lit ''api'', Lit ''signup''], Signup),
      (Some POST, [Lit ''api'', Lit ''login''], Login),
      (None, [Lit ''api'', Star], Jwt),
      (Some GET, [Lit ''api'', Lit ''check''], Check),
      (Some POST, [Lit ''api'', Lit ''logout''], Logout),
      (Some POST, [Lit ''api'', Lit ''colors''], PostColors),
      (Some GET, [Lit ''api'', Lit ''colors''], GetColors),
      (Some POST, [Lit ''api'', Lit ''favorites'', Param], Favorite),
      (Some GET, [Lit ''api'', Lit ''me''], Me),
      (Some GET, [Lit ''signup.html''], AuthPages),
      (Some GET, [Lit ''login.html''], AuthPages),
      (Some GET, [Star], Static)]"

definition routes_B :: "route list" where
  "routes_B =
     [(Some POST, [Lit ''api'', Lit ''signup''], Signup),
      (Some POST, [Lit ''api'', Lit ''login''], Login),
      (None, [Lit ''api'', Star], Jwt),
      (Some POST, [Lit ''api'', Lit ''logout''], Logout),
      (Some GET, [Lit ''api'', Lit ''check''], Check),
      (Some POST, [Lit ''api'', Lit ''colors''], PostColors),
      (Some GET, [Lit ''api'', Lit ''colors''], GetColors),
      (Some GET, [Lit ''api'', Lit ''users''], Users),
      (Some GET, [Lit ''signup.html''], AuthPages),
      (Some GET, [Lit ''login.html''], AuthPages),
      (Some GET, [Star], Static)]"

text \<open>
  What a handler reads of a request: \<open>auth_token\<close> is \<^verbatim>\<open>getCookie(c, COOKIE_NAME)\<close>,
  \<open>json_username\<close> and \<open>json_password\<close> are the two fields of the JSON body and
  \<open>form_record\<close> is the parsed \<^verbatim>\<open>record\<close> form field. \<open>env\<close> is what the handlers
  obtain from the libraries and the clock while the request is served.
\<close>

record request =
  meth :: http_method
  path :: "string list"
  auth_token :: "string option"
  json_username :: "string option"
  json_password :: "string option"
  form_record :: "json option"

record env =
  bcrypt_hash :: "string option \<Rightarrow> string option"
  bcrypt_verify :: "string option \<Rightarrow> string \<Rightarrow> bool option"
  jwt_sign :: "payload \<Rightarrow> string \<Rightarrow> string"
  jwt_validate :: "string \<Rightarrow> string \<Rightarrow> nat \<Rightarrow> payload option"
  gate_clock :: nat
  clock1 :: nat
  clock2 :: nat
  toISOString :: "nat \<Rightarrow> string"
  public_file :: "string list \<Rightarrow> string option"

datatype 's step = Done response 's | Continue "payload option" | Failed

definition answer :: "'s outcome \<Rightarrow> 's step" where
  "answer out = (case out of Respond r s \<Rightarrow> Done r s | Throw \<Rightarrow> Failed)"

text \<open>\<^verbatim>\<open>c.get('jwtPayload').sub\<close> throws when the context holds no payload.\<close>

definition with_payload :: "payload option \<Rightarrow> (payload \<Rightarrow> 's outcome) \<Rightarrow> 's step" where
  "with_payload ctx f = (case ctx of None \<Rightarrow> Failed | Some p \<Rightarrow> answer (f p))"

definition redirect :: "string \<Rightarrow> response" where
  "redirect target = \<lparr>status = 302, body = NoBody, location = Some target, cookie = None\<rparr>"

definition not_found :: response where
  "not_found = \<lparr>status = 404, body = TextBody ''404 Not Found'', location = None, cookie = None\<rparr>"

definition file_response :: "string \<Rightarrow> response" where
  "file_response content = \<lparr>status = 200, body = TextBody content, location = None, cookie = None\<rparr>"

text \<open>
  The middleware in front of the two entry pages (server.js lines 118-121, part_000 lines
  172-176): \<^verbatim>\<open>if (getCookie(c, COOKIE_NAME)) return c.redirect('/index.html')\<close>.
\<close>

definition authPages :: "string option \<Rightarrow> payload option \<Rightarrow> 's \<Rightarrow> 's step" where
  "authPages token ctx s = (if truthy token then Done (redirect ''/index.html'') s else Continue ctx)"

definition serveStatic :: "env \<Rightarrow> request \<Rightarrow> payload option \<Rightarrow> 's \<Rightarrow> 's step" where
  "serveStatic lib req ctx s =
     (case public_file lib (path req) of
        None \<Rightarrow> Continue ctx
      | Some content \<Rightarrow> Done (file_response content) s)"

definition gate :: "env \<Rightarrow> string \<Rightarrow> request \<Rightarrow> 's \<Rightarrow> 's step" where
  "gate lib secret req s =
     (case jwt_gate (jwt_validate lib) secret (gate_clock lib) (auth_token req) of
        Inl r \<Rightarrow> Done r s
      | Inr p \<Rightarrow> Continue (Some p))"

definition exec_A ::
  "env \<Rightarrow> string \<Rightarrow> request \<Rightarrow> handler \<Rightarrow> payload option \<Rightarrow> string store \<Rightarrow> string store step" where
  "exec_A lib secret req h ctx s =
     (case h of
        Signup \<Rightarrow> answer (signup_A (bcrypt_hash lib) s (json_username req) (json_password req))
      | Login \<Rightarrow>
          answer (login_A (bcrypt_verify lib) (jwt_sign lib) secret (clock1 lib) s
                    (json_username req) (json_password req))
      | Jwt \<Rightarrow> gate lib secret req s
      | Check \<Rightarrow> with_payload ctx (check s)
      | Logout \<Rightarrow> answer (logout s)
      | PostColors \<Rightarrow>
          with_payload ctx
            (\<lambda>p. postColors_A s (sub p) (form_record req) (toISOString lib (clock1 lib)) (clock2 lib))
      | GetColors \<Rightarrow> with_payload ctx (\<lambda>p. getColors_A s (sub p))
      | Favorite \<Rightarrow>
          (case path req of
             [a, f, i] \<Rightarrow> with_payload ctx (\<lambda>p. toggleFavorite s (sub p) i)
           | _ \<Rightarrow> Failed)
      | Me \<Rightarrow> with_payload ctx (\<lambda>p. me s (sub p))
      | Users \<Rightarrow> Continue ctx
      | AuthPages \<Rightarrow> authPages (auth_token req) ctx s
      | Static \<Rightarrow> serveStatic lib req ctx s)"

definition exec_B ::
  "env \<Rightarrow> string \<Rightarrow> request \<Rightarrow> handler \<Rightarrow> payload option \<Rightarrow> nat store \<Rightarrow> nat store step" where
  "exec_B lib secret req h ctx s =
     (case h of
        Signup \<Rightarrow> answer (signup_B (bcrypt_hash lib) s (json_username req) (json_password req))
      | Login \<Rightarrow>
          answer (login_B (bcrypt_verify lib) (jwt_sign lib) secret (clock1 lib) (clock2 lib) s
                    (json_username req) (json_password req))
      | Jwt \<Rightarrow> gate lib secret req s
      | Check \<Rightarrow> with_payload ctx (check s)
      | Logout \<Rightarrow> answer (logout s)
      | PostColors \<Rightarrow>
          with_payload ctx
            (\<lambda>p. postColors_B s (sub p) (form_record req) (toISOString lib (clock1 lib)))
      | GetColors \<Rightarrow> answer (getColors_B s)
      | Favorite \<Rightarrow> Continue ctx
      | Me \<Rightarrow> Continue ctx
      | Users \<Rightarrow> answer (users_B s)
      | AuthPages \<Rightarrow> authPages (auth_token req) ctx s
      | Static \<Rightarrow> serveStatic lib req ctx s)"

text \<open>
  Running a chain of handlers: the result is the response, the store and the handlers
  that ran, in order.
\<close>

fun run ::
  "(handler \<Rightarrow> payload option \<Rightarrow> 's \<Rightarrow> 's step) \<Rightarrow> handler list \<Rightarrow> payload option \<Rightarrow> 's
    \<Rightarrow> response \<times> 's \<times> handler list" where
  "run exec [] ctx s = (not_found, s, [])"
| "run exec (h # hs) ctx s =
     (case exec h ctx s of
        Done r s' \<Rightarrow> (r, s', [h])
      | Continue ctx' \<Rightarrow> (case run exec hs ctx' s of (r, s', trace) \<Rightarrow> (r, s', h # trace))
      | Failed \<Rightarrow> (internal_error, s, [h]))"

definition route_matches :: "request \<Rightarrow> route \<Rightarrow> bool" where
  "route_matches req r =
     (case r of (m, pat, h) \<Rightarrow> (m = None \<or> m = Some (meth req)) \<and> matches pat (path req))"

definition chain :: "route list \<Rightarrow> request \<Rightarrow> handler list" where
  "chain routes req = map (\<lambda>r. snd (snd r)) (filter (route_matches req) routes)"

definition dispatch_A ::
  "env \<Rightarrow> string \<Rightarrow> request \<Rightarrow> string store \<Rightarrow> response \<times> string store \<times> handler list" where
  "dispatch_A lib secret req s = run (exec_A lib secret req) (chain routes_A req) None s"

definition dispatch_B ::
  "env \<Rightarrow> string \<Rightarrow> request \<Rightarrow> nat store \<Rightarrow> response \<times> nat store \<times> handler list" where
  "dispatch_B lib secret req s = run (exec_B lib secret req) (chain routes_B req) None s"

subsection \<open>Vocabulary of the statements\<close>

text \<open>The store after the user record \<open>(u, h)\<close> has been written.\<close>

abbreviation with_user :: "'id store \<Rightarrow> string \<Rightarrow> string \<Rightarrow> 'id store" where
  "with_user s u h \<equiv> s\<lparr>users := kv_set (users s) u \<lparr>username = u, hashedPassword = h\<rparr>\<rparr>"

text \<open>
  A submitted record after the three server-side assignments of the posting handlers:
  \<open>stamped\<close> on the properties, \<open>stamped_record\<close> on an object or array.
\<close>

abbreviation stamped :: "jsobject \<Rightarrow> string \<Rightarrow> string \<Rightarrow> json \<Rightarrow> jsobject" where
  "stamped r u c i \<equiv> obj_set (obj_set (obj_set r ''author'' (JStr u)) ''createdAt'' (JStr c)) ''id'' i"

abbreviation stamped_record :: "jsval \<Rightarrow> string \<Rightarrow> string \<Rightarrow> json \<Rightarrow> jsval" where
  "stamped_record v u c i \<equiv>
     set_prop (set_prop (set_prop v ''author'' (JStr u)) ''createdAt'' (JStr c)) ''id'' i"

text \<open>
  A post is what a posting handler receives: the authenticated user, the parsed form
  field, the creation time and, in server.js, the clock reading that becomes the id.
  \<open>post_A\<close> and \<open>post_B\<close> are the stores that the handlers leave, so
  \<open>foldl post_A empty_store ps\<close> is the store after the posts \<open>ps\<close>, in this order, on
  an empty store. A post creates a record when the parsed value is an object or an array
  (\<open>is_record\<close>); \<open>id_A\<close> is the id that server.js gives it, and \<open>stored_A\<close> and
  \<open>stored_B\<close> are the values that the handlers store for it (part_000 under the id
  \<open>i\<close>).
\<close>

definition is_record :: "json \<Rightarrow> bool" where
  "is_record j = (case j of JObj props \<Rightarrow> True | JArr elems \<Rightarrow> True | _ \<Rightarrow> False)"

definition post_A :: "string store \<Rightarrow> string \<times> json \<times> string \<times> nat \<Rightarrow> string store" where
  "post_A s p = (case p of (a, j, c, n) \<Rightarrow> store_after s (postColors_A s a (Some j) c n))"

definition post_B :: "nat store \<Rightarrow> string \<times> json \<times> string \<Rightarrow> nat store" where
  "post_B s p = (case p of (a, j, c) \<Rightarrow> store_after s (postColors_B s a (Some j) c))"

definition id_A :: "string \<times> json \<times> string \<times> nat \<Rightarrow> string" where
  "id_A p = (case p of (a, j, c, n) \<Rightarrow> Number_toString n)"

definition stored_A :: "string \<times> json \<times> string \<times> nat \<Rightarrow> jsval" where
  "stored_A p =
     (case p of (a, j, c, n) \<Rightarrow>
        (case as_record j of
           Some v \<Rightarrow> stamped_record v a c (JStr (Number_toString n))
         | None \<Rightarrow> Object []))"

definition stored_B :: "nat \<times> string \<times> json \<times> string \<Rightarrow> jsval" where
  "stored_B p =
     (case p of (i, a, j, c) \<Rightarrow>
        (case as_record j of
           Some v \<Rightarrow> stamped_record v a c (JNum (int i))
         | None \<Rightarrow> Object []))"

text \<open>
  What a listing is expected to show for a post. server.js: a record submitted as an
  object, stamped and with \<^verbatim>\<open>isFavorite\<close> set to whether the requesting user \<open>u\<close> has
  marked its id; a record submitted as an array, as its bare elements. part_000: the
  stamped object, or the bare elements, with the id \<open>i\<close>.
\<close>

fun listed_A :: "'id store \<Rightarrow> string \<Rightarrow> string \<times> json \<times> string \<times> nat \<Rightarrow> json" where
  "listed_A s u (a, JObj r, c, n) =
     JObj (obj_set (stamped r a c (JStr (Number_toString n))) ''isFavorite''
             (JBool (isFavorite s u (Number_toString n))))"
| "listed_A s u (a, JArr elems, c, n) = JArr elems"
| "listed_A s u (a, j, c, n) = j"

fun listed_B :: "nat \<times> string \<times> json \<times> string \<Rightarrow> json" where
  "listed_B (i, a, JObj r, c) = JObj (stamped r a c (JNum (int i)))"
| "listed_B (i, a, JArr elems, c) = JArr elems"
| "listed_B (i, a, j, c) = j"

text \<open>
  The handlers registered behind the gate, and what it means that a request carries a
  valid session: a non-empty token in the cookie that the token service validates
  against the server secret at the time the gate runs.
\<close>

definition protected :: "handler \<Rightarrow> bool" where
  "protected h =
     (case h of
        Check \<Rightarrow> True | Logout \<Rightarrow> True | PostColors \<Rightarrow> True | GetColors \<Rightarrow> True
      | Favorite \<Rightarrow> True | Me \<Rightarrow> True | Users \<Rightarrow> True | _ \<Rightarrow> False)"

definition valid_session :: "env \<Rightarrow> string \<Rightarrow> request \<Rightarrow> bool" where
  "valid_session lib secret req =
     (case auth_token req of
        None \<Rightarrow> False
      | Some t \<Rightarrow> t \<noteq> [] \<and> jwt_validate lib t secret (gate_clock lib) \<noteq> None)"

subsection \<open>Example data\<close>

text \<open>
  Stores, stand-ins for the library functions, an environment built from them and a GET
  request without a body, for the concrete instances of the theorems below:
  a store with no entries, the store after \<^verbatim>\<open>alice\<close> has signed up, a store in which
  \<^verbatim>\<open>bob\<close> has marked record 3, a store of server.js with two records of which
  \<^verbatim>\<open>alice\<close> has marked the second, and a store of part_000 with one record.
\<close>

definition empty_store :: "'id store" where
  "empty_store = \<lparr>users = [], colors = [], favorites = [], counter = 0\<rparr>"

definition alice_store :: "'id store" where
  "alice_store =
     \<lparr>users = [(''alice'', \<lparr>username = ''alice'', hashedPassword = ''bcrypt:pw123''\<rparr>)],
      colors = [], favorites = [], counter = 0\<rparr>"

definition bob_likes_3 :: "'id store" where
  "bob_likes_3 = \<lparr>users = [], colors = [], favorites = [((''bob'', ''3''), ())], counter = 0\<rparr>"

definition rec_red :: jsobject where
  "rec_red = [(''color'', JStr ''#ff0000''), (''comment'', JStr ''x''), (''author'', JStr ''alice''),
     (''createdAt'', JStr ''2023-11-14T22:13:20.000Z''), (''id'', JStr ''1700000000000'')]"

definition rec_blue :: jsobject where
  "rec_blue = [(''color'', JStr ''#0000ff''), (''comment'', JStr ''y''), (''author'', JStr ''bob''),
     (''createdAt'', JStr ''2023-11-14T22:13:20.001Z''), (''id'', JStr ''1700000000001'')]"

definition two_colors :: "string store" where
  "two_colors =
     \<lparr>users = [], colors = [(''1700000000000'', Object rec_red), (''1700000000001'', Object rec_blue)],
      favorites = [((''alice'', ''1700000000001''), ())], counter = 0\<rparr>"

definition rec_one :: jsobject where
  "rec_one = [(''color'', JStr ''#ff0000''), (''comment'', JStr ''x''), (''author'', JStr ''alice''),
     (''createdAt'', JStr ''2023-11-14T22:13:20.000Z''), (''id'', JNum 1)]"

definition one_color :: "nat store" where
  "one_color = \<lparr>users = [], colors = [(1, Object rec_one)], favorites = [], counter = 1\<rparr>"

definition hash0 :: "string option \<Rightarrow> string option" where
  "hash0 pw = (case pw of None \<Rightarrow> None | Some w \<Rightarrow> Some (''bcrypt:'' @ w))"

definition verify0 :: "string option \<Rightarrow> string \<Rightarrow> bool option" where
  "verify0 pw h = (case pw of None \<Rightarrow> None | Some w \<Rightarrow> Some (h = ''bcrypt:'' @ w))"

definition sign0 :: "payload \<Rightarrow> string \<Rightarrow> string" where
  "sign0 p k = sub p @ ''.'' @ k"

definition validate0 :: "string \<Rightarrow> string \<Rightarrow> nat \<Rightarrow> payload option" where
  "validate0 t k now =
     (if t = ''alice.'' @ k \<and> now div 1000 < 1700086400
      then Some \<lparr>sub = ''alice'', iat = None, exp = 1700086400\<rparr> else None)"

definition lib0 :: env where
  "lib0 =
     \<lparr>bcrypt_hash = hash0, bcrypt_verify = verify0, jwt_sign = sign0, jwt_validate = validate0,
      gate_clock = 1700000000002, clock1 = 1700000000002, clock2 = 1700000000002,
      toISOString = (\<lambda>n. ''2023-11-14T22:13:20.002Z''),
      public_file = (\<lambda>p. if p = [''signup.html''] then Some ''signup page''
                          else if p = [''login.html''] then Some ''login page'' else None)\<rparr>"

definition get_request :: "string list \<Rightarrow> string option \<Rightarrow> request" where
  "get_request p token =
     \<lparr>meth = GET, path = p, auth_token = token, json_username = None, json_password = None,
      form_record = None\<rparr>"

text \<open>
  Posts for the examples: two posts at consecutive milliseconds (they give the records of
  \<open>two_colors\<close>), two posts between which the clock is set back, the post of an array,
  and one post to part_000 (it gives \<open>one_color\<close>).
\<close>

definition posts_two :: "(string \<times> json \<times> string \<times> nat) list" where
  "posts_two =
     [(''alice'', JObj [(''color'', JStr ''#ff0000''), (''comment'', JStr ''x'')],
       ''2023-11-14T22:13:20.000Z'', 1700000000000),
      (''bob'', JObj [(''color'', JStr ''#0000ff''), (''comment'', JStr ''y'')],
       ''2023-11-14T22:13:20.001Z'', 1700000000001)]"

definition posts_clock_back :: "(string \<times> json \<times> string \<times> nat) list" where
  "posts_clock_back =
     [(''alice'', JObj [(''color'', JStr ''#ff0000'')], ''2023-11-14T22:13:20.005Z'', 1700000000005),
      (''bob'', JObj [(''color'', JStr ''#0000ff'')], ''2023-11-14T22:13:20.003Z'', 1700000000003)]"

definition post_array :: "string \<times> json \<times> string \<times> nat" where
  "post_array = (''alice'', JArr [JStr ''#ff0000''], ''2023-11-14T22:13:20.000Z'', 1700000000000)"

definition posts_one :: "(string \<times> json \<times> string) list" where
  "posts_one =
     [(''alice'', JObj [(''color'', JStr ''#ff0000''), (''comment'', JStr ''x'')],
       ''2023-11-14T22:13:20.000Z'')]"

section \<open>Properties of the store operations\<close>

lemma kv_get_set_same: "kv_get (kv_set es k v) k = Some v"
  by (induction es) (auto simp: kv_get_def)

lemma kv_get_set_other: "k' \<noteq> k \<Longrightarrow> kv_get (kv_set es k v) k' = kv_get es k'"
  by (induction es) (auto simp: kv_get_def)

lemma kv_get_None_iff: "kv_get es k = None \<longleftrightarrow> k \<notin> fst ` set es"
  by (simp add: kv_get_def map_of_eq_None_iff)

lemma kv_delete_absent: "kv_get es k = None \<Longrightarrow> kv_delete es k = es"
  by (induction es) (auto simp: kv_get_def kv_delete_def split: if_splits)

text \<open>Deleting a key that was just added to a store without it gives the store back.\<close>

lemma kv_delete_set: "kv_get es k = None \<Longrightarrow> kv_delete (kv_set es k v) k = es"
proof (induction es)
  case Nil
  then show ?case by (simp add: kv_delete_def)
next
  case (Cons e es)
  obtain k' v' where e: "e = (k', v')" by (cases e)
  from Cons.prems e have ne: "k' \<noteq> k" and rest: "kv_get es k = None"
    by (auto simp: kv_get_def split: if_splits)
  show ?case
  proof (cases "k < k'")
    case True
    with ne e kv_delete_absent [OF Cons.prems] show ?thesis
      by (auto simp: kv_delete_def)
  next
    case False
    with ne e Cons.IH [OF rest] show ?thesis
      by (auto simp: kv_delete_def)
  qed
qed

lemma kv_get_delete: "kv_get (kv_delete es k) k = None"
  by (auto simp: kv_get_None_iff kv_delete_def)

text \<open>Writing a key twice keeps the second value only.\<close>

lemma kv_set_set: "kv_set (kv_set es k v) k v' = kv_set es k v'"
  by (induction es) auto

text \<open>A key above all stored keys is listed last.\<close>

lemma kv_set_last: "\<forall>e \<in> set es. fst e < k \<Longrightarrow> kv_set es k v = es @ [(k, v)]"
  by (induction es) auto

section \<open>Sign-up\<close>

lemma signup_A_new:
  "kv_get (users s) u = None \<Longrightarrow> H pw = Some h \<Longrightarrow>
   signup_A H s (Some u) pw =
     Respond (json_response 201 (message msg_success_A)) (with_user s u h)"
  by (simp add: signup_A_def)

lemma signup_A_taken:
  "kv_get (users s) u = Some r \<Longrightarrow>
   signup_A H s (Some u) pw = Respond (json_response 409 (message msg_used_A)) s"
  by (simp add: signup_A_def)

lemma signup_B_new:
  "u \<noteq> [] \<Longrightarrow> p \<noteq> [] \<Longrightarrow> kv_get (users s) u = None \<Longrightarrow> H (Some p) = Some h \<Longrightarrow>
   signup_B H s (Some u) (Some p) =
     Respond (json_response 201 (message msg_registered_B)) (with_user s u h)"
  by (simp add: signup_B_def truthy_def)

lemma signup_B_taken:
  "u \<noteq> [] \<Longrightarrow> kv_get (users s) u = Some r \<Longrightarrow>
   signup_B H s (Some u) pw =
     Respond (json_response (if truthy pw then 409 else 400)
                (message (if truthy pw then msg_used_B else msg_required_B))) s"
  by (simp add: signup_B_def truthy_def)

text \<open>
  C2. Registration of a request that carries a user name \<open>u\<close> and a password. In
  server.js (\<open>signup_A\<close>), for every \<open>u\<close>: if no user record is stored under \<open>u\<close> (and
  the hashing succeeds with \<open>h\<close>), the answer is 201 and the record \<open>(u, h)\<close> is stored;
  if a record is stored under \<open>u\<close>, the answer is 409 and the store is unchanged. In
  particular a second registration of \<open>u\<close>, with any password and any hashing, is
  answered 409 and leaves the store, and with it the first record, as it was. In
  part_000 (\<open>signup_B\<close>) the same holds for the requests that pass its presence check,
  those with a non-empty user name and password; a second registration of \<open>u\<close> never
  changes the store there either, whatever its password field is.
\<close>

theorem signup_created_or_conflict:
  fixes s :: "'id store"
  shows
    "(kv_get (users s) u = None \<and> H pw = Some h \<longrightarrow>
        signup_A H s (Some u) pw = Respond (json_response 201 (message msg_success_A)) (with_user s u h)
      \<and> kv_get (users (with_user s u h)) u = Some \<lparr>username = u, hashedPassword = h\<rparr>
      \<and> signup_A H' (with_user s u h) (Some u) pw' =
          Respond (json_response 409 (message msg_used_A)) (with_user s u h))
   \<and> (kv_get (users s) u \<noteq> None \<longrightarrow>
        signup_A H s (Some u) pw = Respond (json_response 409 (message msg_used_A)) s)
   \<and> (u \<noteq> [] \<and> p \<noteq> [] \<longrightarrow>
        (kv_get (users s) u = None \<and> H (Some p) = Some h \<longrightarrow>
           signup_B H s (Some u) (Some p) =
             Respond (json_response 201 (message msg_registered_B)) (with_user s u h)
         \<and> (p' \<noteq> [] \<longrightarrow>
              signup_B H' (with_user s u h) (Some u) (Some p') =
                Respond (json_response 409 (message msg_used_B)) (with_user s u h))
         \<and> store_after (with_user s u h) (signup_B H' (with_user s u h) (Some u) pw') =
             with_user s u h)
      \<and> (kv_get (users s) u \<noteq> None \<longrightarrow>
           signup_B H s (Some u) (Some p) = Respond (json_response 409 (message msg_used_B)) s))"
proof -
  have stored: "kv_get (users (with_user s u h)) u = Some \<lparr>username = u, hashedPassword = h\<rparr>" for h
    by (simp add: kv_get_set_same)
  have A_again: "signup_A H' (with_user s u h) (Some u) pw' =
      Respond (json_response 409 (message msg_used_A)) (with_user s u h)"
    by (rule signup_A_taken [OF stored])
  have B_again: "u \<noteq> [] \<Longrightarrow> signup_B H' (with_user s u h) (Some u) pw'' =
      Respond (json_response (if truthy pw'' then 409 else 400)
                (message (if truthy pw'' then msg_used_B else msg_required_B))) (with_user s u h)" for pw''
    by (rule signup_B_taken [OF _ stored])
  show ?thesis
    using stored A_again B_again [of pw'] B_again [of "Some p'"]
    by (auto simp: signup_A_new signup_A_taken signup_B_new signup_B_taken truthy_def
          store_after_def simp del: store.update_convs)
qed

theorem signup_created_or_conflict_witness:
  "kv_get (users (empty_store :: string store)) ''alice'' = None
   \<and> hash0 (Some ''pw123'') = Some ''bcrypt:pw123''
   \<and> signup_A hash0 (empty_store :: string store) (Some ''alice'') (Some ''pw123'') =
       Respond (json_response 201 (message msg_success_A)) alice_store
   \<and> signup_B hash0 (empty_store :: string store) (Some ''alice'') (Some ''pw123'') =
       Respond (json_response 201 (message msg_registered_B)) alice_store
   \<and> kv_get (users (alice_store :: string store)) ''alice'' \<noteq> None
   \<and> signup_A hash0 (alice_store :: string store) (Some ''alice'') (Some ''other'') =
       Respond (json_response 409 (message msg_used_A)) alice_store
   \<and> signup_B hash0 (alice_store :: string store) (Some ''alice'') (Some ''other'') =
       Respond (json_response 409 (message msg_used_B)) alice_store"
proof -
  have new: "kv_get (users (empty_store :: string store)) ''alice'' = None"
    by (simp add: empty_store_def kv_get_def)
  have h: "hash0 (Some ''pw123'') = Some ''bcrypt:pw123''"
    by (simp add: hash0_def)
  have taken: "kv_get (users (alice_store :: string store)) ''alice'' \<noteq> None"
    by (simp add: alice_store_def kv_get_def)
  have eq: "with_user (empty_store :: string store) ''alice'' ''bcrypt:pw123'' = alice_store"
    by (simp add: empty_store_def alice_store_def)
  from signup_created_or_conflict
         [of "empty_store :: string store" "''alice''" hash0 "Some ''pw123''" "''bcrypt:pw123''"
             hash0 "Some ''other''" "''pw123''" "''other''"]
       signup_created_or_conflict
         [of "alice_store :: string store" "''alice''" hash0 "Some ''other''" "''x''"
             hash0 "Some ''other''" "''other''" "''other''"]
       new h taken eq
  show ?thesis by simp
qed

section \<open>Sign-up without a user name or a password\<close>

text \<open>part_000 answers a request without a (non-empty) user name or password with 400.\<close>

lemma signup_B_missing:
  "\<not> truthy username_in \<or> \<not> truthy password_in \<Longrightarrow>
   signup_B H s username_in password_in = Respond (json_response 400 (message msg_required_B)) s"
  by (auto simp: signup_B_def)

text \<open>
  C9. The claim is that a sign-up request without a user name or without a password is
  answered 400 and creates no user. server.js has no presence check: whatever the
  request, its sign-up never answers 400. Without a user name the store lookup throws
  (the answer is 500); without a password, \<^verbatim>\<open>undefined\<close> is handed to the hashing
  function, and when that returns a hash the user \<^verbatim>\<open>bob\<close> is created with status 201.
\<close>

theorem signup_A_never_400:
  "status (response_of (signup_A H s username_in password_in)) \<noteq> 400
   \<and> signup_A H s None password_in = Throw
   \<and> signup_A H (empty_store :: string store) (Some ''bob'') None =
       (case H None of
          None \<Rightarrow> Throw
        | Some h \<Rightarrow> Respond (json_response 201 (message msg_success_A)) (with_user empty_store ''bob'' h))"
  by (auto simp: signup_A_def response_of_def json_response_def internal_error_def kv_get_def
        empty_store_def split: option.splits)

section \<open>Login\<close>

lemma login_A_unknown:
  "kv_get (users s) u = None \<Longrightarrow>
   login_A V S k n s (Some u) pw = Respond (json_response 401 (message msg_invalid_A)) s"
  by (simp add: login_A_def)

lemma login_A_wrong_password:
  "kv_get (users s) u = Some r \<Longrightarrow> V pw (hashedPassword r) = Some False \<Longrightarrow>
   login_A V S k n s (Some u) pw = Respond (json_response 401 (message msg_invalid_A)) s"
  by (simp add: login_A_def)

lemma login_B_unknown:
  "kv_get (users s) u = None \<Longrightarrow>
   login_B V S k n1 n2 s (Some u) pw = Respond (json_response 401 (message msg_bad_username_B)) s"
  by (simp add: login_B_def)

lemma login_B_wrong_password:
  "kv_get (users s) u = Some r \<Longrightarrow> V pw (hashedPassword r) = Some False \<Longrightarrow>
   login_B V S k n1 n2 s (Some u) pw = Respond (json_response 401 (message msg_bad_password_B)) s"
  by (simp add: login_B_def)

lemma msg_B_differ: "msg_bad_username_B \<noteq> msg_bad_password_B"
  by (simp add: msg_bad_username_B_def msg_bad_password_B_def)

text \<open>
  C1. The claim is that a failed login gives the same response whether the user name is
  unknown or the password is wrong. server.js does so (\<open>login_A_unknown\<close>,
  \<open>login_A_wrong_password\<close>). part_000 answers 401 in both cases but with two different
  messages: with only \<^verbatim>\<open>alice\<close> registered, a login as \<^verbatim>\<open>mallory\<close> is told that the user
  name is invalid and a login as \<^verbatim>\<open>alice\<close> with a wrong password that the password is
  invalid, so the response reveals which user names exist.
\<close>

theorem login_B_reveals_reason:
  "login_B verify0 S k n1 n2 (alice_store :: nat store) (Some ''mallory'') (Some ''guess'') =
     Respond (json_response 401 (message msg_bad_username_B)) alice_store
   \<and> login_B verify0 S k n1 n2 (alice_store :: nat store) (Some ''alice'') (Some ''guess'') =
     Respond (json_response 401 (message msg_bad_password_B)) alice_store
   \<and> json_response 401 (message msg_bad_username_B) \<noteq> json_response 401 (message msg_bad_password_B)"
proof -
  have unknown: "kv_get (users (alice_store :: nat store)) ''mallory'' = None"
    by (simp add: alice_store_def kv_get_def)
  have known: "kv_get (users (alice_store :: nat store)) ''alice'' =
      Some \<lparr>username = ''alice'', hashedPassword = ''bcrypt:pw123''\<rparr>"
    by (simp add: alice_store_def kv_get_def)
  have wrong: "verify0 (Some ''guess'')
      (hashedPassword \<lparr>username = ''alice'', hashedPassword = ''bcrypt:pw123''\<rparr>) = Some False"
    by (simp add: verify0_def)
  show ?thesis
    using login_B_unknown [OF unknown] login_B_wrong_password [OF known, of verify0, OF wrong]
      msg_B_differ
    by (simp add: json_response_def message_def)
qed

section \<open>Start-up\<close>


section \<open>The gate in front of the protected routes\<close>

lemma gate_rejects: "\<not> valid_session lib k req \<Longrightarrow> gate lib k req s = Done unauthorized s"
  by (auto simp: valid_session_def gate_def jwt_gate_def split: option.splits)

text \<open>The handlers that ran are among those of the chain.\<close>

lemma run_trace_subset: "set (snd (snd (run exec hs ctx s))) \<subseteq> set hs"
proof (induction hs arbitrary: ctx)
  case Nil
  show ?case by simp
next
  case (Cons h hs)
  show ?case
  proof (cases "exec h ctx s")
    case (Done r s')
    then show ?thesis by simp
  next
    case (Continue ctx')
    with Cons.IH [of ctx'] show ?thesis
      by (cases "run exec hs ctx' s") auto
  next
    case Failed
    then show ?thesis by simp
  qed
qed

lemma matches_api: "matches [Lit ''api'', Star] p \<longleftrightarrow> (\<exists>rest. p = ''api'' # rest)"
  by (cases p) auto

lemma matches_Nil: "matches [] p \<longleftrightarrow> p = []"
  by (cases p) auto

lemma matches_two: "matches [Lit a, Lit b] p \<longleftrightarrow> p = [a, b]"
proof (cases p)
  case Nil
  then show ?thesis by simp
next
  case (Cons x xs)
  then show ?thesis by (cases xs) (auto simp: matches_Nil)
qed

text \<open>Behind the two public routes the gate is the first handler of every chain under /api.\<close>

lemma api_chain_starts_with_gate:
  assumes "matches [Lit ''api'', Star] (path req)"
    and "\<not> (meth req = POST \<and> (path req = [''api'', ''signup''] \<or> path req = [''api'', ''login'']))"
  shows "\<exists>hs. chain routes_A req = Jwt # hs" and "\<exists>hs. chain routes_B req = Jwt # hs"
  using assms
  by (auto simp: chain_def routes_A_def routes_B_def route_matches_def matches_two
        simp del: matches.simps)

lemma public_chain:
  assumes "meth req = POST" and "path req = [''api'', ''signup''] \<or> path req = [''api'', ''login'']"
  shows "chain routes_A req = (if path req = [''api'', ''signup''] then [Signup, Jwt] else [Login, Jwt])"
    and "chain routes_B req = (if path req = [''api'', ''signup''] then [Signup, Jwt] else [Login, Jwt])"
  using assms by (auto simp: chain_def routes_A_def routes_B_def route_matches_def)

text \<open>Outside /api only the entry-page middleware and the static files are reached.\<close>

lemma outside_api_chain:
  assumes "\<not> matches [Lit ''api'', Star] (path req)"
  shows "set (chain routes_A req) \<subseteq> {AuthPages, Static}"
    and "set (chain routes_B req) \<subseteq> {AuthPages, Static}"
proof -
  have no: "\<not> matches (Lit ''api'' # ps) (path req)" for ps
    using assms by (cases "path req") (auto simp: matches_api)
  show "set (chain routes_A req) \<subseteq> {AuthPages, Static}"
    by (auto simp: chain_def routes_A_def route_matches_def no simp del: matches.simps)
  show "set (chain routes_B req) \<subseteq> {AuthPages, Static}"
    by (auto simp: chain_def routes_B_def route_matches_def no simp del: matches.simps)
qed

lemma run_answer:
  "exec h ctx s = answer out \<Longrightarrow> snd (snd (run exec (h # hs) ctx s)) = [h]"
  by (cases out) (simp_all add: answer_def)

lemma protected_simps:
  "\<not> protected Jwt" "\<not> protected Signup" "\<not> protected Login" "\<not> protected AuthPages"
  "\<not> protected Static"
  by (simp_all add: protected_def)

lemma dispatch_rejected:
  assumes invalid: "\<not> valid_session lib k req"
    and api: "matches [Lit ''api'', Star] (path req)"
    and not_public:
      "\<not> (meth req = POST \<and> (path req = [''api'', ''signup''] \<or> path req = [''api'', ''login'']))"
  shows "dispatch_A lib k req s = (unauthorized, s, [Jwt])"
    and "dispatch_B lib k req s' = (unauthorized, s', [Jwt])"
proof -
  from api_chain_starts_with_gate(1) [OF api not_public]
  obtain hs where "chain routes_A req = Jwt # hs" ..
  then show "dispatch_A lib k req s = (unauthorized, s, [Jwt])"
    by (simp add: dispatch_A_def exec_A_def gate_rejects [OF invalid])
  from api_chain_starts_with_gate(2) [OF api not_public]
  obtain hs' where "chain routes_B req = Jwt # hs'" ..
  then show "dispatch_B lib k req s' = (unauthorized, s', [Jwt])"
    by (simp add: dispatch_B_def exec_B_def gate_rejects [OF invalid])
qed

lemma dispatch_public:
  assumes "meth req = POST" and "path req = [''api'', ''signup''] \<or> path req = [''api'', ''login'']"
  shows "snd (snd (dispatch_A lib k req s)) = (if path req = [''api'', ''signup''] then [Signup] else [Login])"
    and "snd (snd (dispatch_B lib k req s')) = (if path req = [''api'', ''signup''] then [Signup] else [Login])"
proof -
  have A: "exec_A lib k req Signup None s = answer (signup_A (bcrypt_hash lib) s (json_username req) (json_password req))"
    "exec_A lib k req Login None s = answer (login_A (bcrypt_verify lib) (jwt_sign lib) k (clock1 lib) s
                    (json_username req) (json_password req))"
    by (simp_all add: exec_A_def)
  have B: "exec_B lib k req Signup None s' = answer (signup_B (bcrypt_hash lib) s' (json_username req) (json_password req))"
    "exec_B lib k req Login None s' = answer (login_B (bcrypt_verify lib) (jwt_sign lib) k (clock1 lib) (clock2 lib) s'
                    (json_username req) (json_password req))"
    by (simp_all add: exec_B_def)
  show "snd (snd (dispatch_A lib k req s)) = (if path req = [''api'', ''signup''] then [Signup] else [Login])"
    unfolding dispatch_A_def public_chain(1) [OF assms]
    using run_answer [of "exec_A lib k req" Signup None s _ "[Jwt]", OF A(1)]
      run_answer [of "exec_A lib k req" Login None s _ "[Jwt]", OF A(2)]
    by simp
  show "snd (snd (dispatch_B lib k req s')) = (if path req = [''api'', ''signup''] then [Signup] else [Login])"
    unfolding dispatch_B_def public_chain(2) [OF assms]
    using run_answer [of "exec_B lib k req" Signup None s' _ "[Jwt]", OF B(1)]
      run_answer [of "exec_B lib k req" Login None s' _ "[Jwt]", OF B(2)]
    by simp
qed

text \<open>
  C3. For every request that carries no valid session (no cookie, an empty one, or a
  token that the validation rejects): if its path is under \<^verbatim>\<open>/api\<close> and it is not a
  POST to \<^verbatim>\<open>/api/signup\<close> or \<^verbatim>\<open>/api/login\<close>, the answer is 401 Unauthorized, the store
  is unchanged and the gate is the only handler that ran; and whatever its path and
  method, none of the protected handlers runs. Both variants.
\<close>

theorem gate_guards_api:
  assumes invalid: "\<not> valid_session lib k req"
  shows "(matches [Lit ''api'', Star] (path req)
          \<and> \<not> (meth req = POST \<and> (path req = [''api'', ''signup''] \<or> path req = [''api'', ''login'']))
          \<longrightarrow> dispatch_A lib k req s = (unauthorized, s, [Jwt])
            \<and> dispatch_B lib k req s' = (unauthorized, s', [Jwt]))
       \<and> (\<forall>h. protected h \<longrightarrow>
              h \<notin> set (snd (snd (dispatch_A lib k req s)))
            \<and> h \<notin> set (snd (snd (dispatch_B lib k req s'))))"
proof -
  have none: "h \<notin> set (snd (snd (dispatch_A lib k req s))) \<and> h \<notin> set (snd (snd (dispatch_B lib k req s')))"
    if prot: "protected h" for h
  proof (cases "matches [Lit ''api'', Star] (path req)")
    case api: True
    show ?thesis
    proof (cases "meth req = POST \<and> (path req = [''api'', ''signup''] \<or> path req = [''api'', ''login''])")
      case True
      then have "meth req = POST" "path req = [''api'', ''signup''] \<or> path req = [''api'', ''login'']"
        by simp_all
      from dispatch_public(1) [OF this, of lib k s] dispatch_public(2) [OF this, of lib k s'] prot
      show ?thesis
        by (auto simp: protected_simps split: if_splits)
    next
      case False
      from dispatch_rejected(1) [OF invalid api False, of s]
        dispatch_rejected(2) [OF invalid api False, of s'] prot
      show ?thesis
        by (auto simp: protected_simps)
    qed
  next
    case False
    from outside_api_chain [OF False]
      run_trace_subset [of "exec_A lib k req" "chain routes_A req" None s]
      run_trace_subset [of "exec_B lib k req" "chain routes_B req" None s']
    have "set (snd (snd (dispatch_A lib k req s))) \<subseteq> {AuthPages, Static}"
      "set (snd (snd (dispatch_B lib k req s'))) \<subseteq> {AuthPages, Static}"
      by (auto simp: dispatch_A_def dispatch_B_def)
    with prot show ?thesis
      by (auto simp: protected_simps)
  qed
  from dispatch_rejected(1) [OF invalid, of s] dispatch_rejected(2) [OF invalid, of s'] none
  show ?thesis
    by blast
qed

theorem gate_guards_api_witness:
  "\<not> valid_session lib0 ''k'' (get_request [''api'', ''colors''] None)
   \<and> \<not> valid_session lib0 ''k'' (get_request [''api'', ''me''] (Some ''alice.forged''))
   \<and> matches [Lit ''api'', Star] (path (get_request [''api'', ''colors''] None))
   \<and> dispatch_A lib0 ''k'' (get_request [''api'', ''colors''] None) two_colors = (unauthorized, two_colors, [Jwt])
   \<and> dispatch_B lib0 ''k'' (get_request [''api'', ''colors''] None) one_color = (unauthorized, one_color, [Jwt])
   \<and> dispatch_A lib0 ''k'' (get_request [''api'', ''me''] (Some ''alice.forged'')) two_colors =
       (unauthorized, two_colors, [Jwt])
   \<and> protected GetColors
   \<and> GetColors \<notin> set (snd (snd (dispatch_A lib0 ''k'' (get_request [''api'', ''colors''] None) two_colors)))"
proof -
  have get: "meth (get_request p t) = GET" "path (get_request p t) = p"
    "auth_token (get_request p t) = t" for p t
    by (simp_all add: get_request_def)
  have absent: "\<not> valid_session lib0 ''k'' (get_request [''api'', ''colors''] None)"
    by (simp add: valid_session_def get)
  have forged: "\<not> valid_session lib0 ''k'' (get_request [''api'', ''me''] (Some ''alice.forged''))"
    by (simp add: valid_session_def get lib0_def validate0_def)
  have prot: "protected GetColors"
    by (simp add: protected_def)
  from gate_guards_api [OF absent, of two_colors one_color]
       gate_guards_api [OF forged, of two_colors one_color]
       absent forged prot
  show ?thesis
    by (simp add: get)
qed

text \<open>With a valid session the gate lets the request through to its handler.\<close>

lemma valid_session_reaches_handler:
  "valid_session lib0 ''k'' (get_request [''api'', ''check''] (Some ''alice.k''))
   \<and> dispatch_A lib0 ''k'' (get_request [''api'', ''check''] (Some ''alice.k'')) two_colors =
       (json_response 200 (JObj [(''username'', JStr ''alice'')]), two_colors, [Jwt, Check])
   \<and> dispatch_B lib0 ''k'' (get_request [''api'', ''check''] (Some ''alice.k'')) one_color =
       (json_response 200 (JObj [(''username'', JStr ''alice'')]), one_color, [Jwt, Check])"
  by (simp add: valid_session_def get_request_def lib0_def validate0_def dispatch_A_def dispatch_B_def
        chain_def routes_A_def routes_B_def route_matches_def exec_A_def exec_B_def gate_def jwt_gate_def
        with_payload_def check_def answer_def)

section \<open>Posting a colour record\<close>

lemma obj_get_set_same: "obj_get (obj_set r k v) k = Some v"
  by (simp add: obj_get_def obj_set_def update_conv')

lemma obj_get_set_other: "k' \<noteq> k \<Longrightarrow> obj_get (obj_set r k v) k' = obj_get r k'"
  by (simp add: obj_get_def obj_set_def update_conv')

lemma get_prop_set_same: "get_prop (set_prop v k x) k = Some x"
  by (cases v) (simp_all add: get_prop_def set_prop_def obj_get_set_same)

lemma get_prop_set_other: "k' \<noteq> k \<Longrightarrow> get_prop (set_prop v k x) k' = get_prop v k'"
  by (cases v) (simp_all add: get_prop_def set_prop_def obj_get_set_other)

text \<open>
  Whatever the submitted record holds, the stamped record has the server's author,
  creation time and id, and the client's other properties.
\<close>

lemma stamped_fields:
  "obj_get (stamped r u c i) ''author'' = Some (JStr u)"
  "obj_get (stamped r u c i) ''createdAt'' = Some (JStr c)"
  "obj_get (stamped r u c i) ''id'' = Some i"
  "k \<notin> {''author'', ''createdAt'', ''id''} \<Longrightarrow> obj_get (stamped r u c i) k = obj_get r k"
  by (simp_all add: obj_get_set_same obj_get_set_other)

lemma stamped_record_simps:
  "stamped_record (Object r) u c i = Object (stamped r u c i)"
  "stamped_record (Array elems r) u c i = Array elems (stamped r u c i)"
  by (simp_all add: set_prop_def)

lemma is_record_as_record: "is_record j \<longleftrightarrow> as_record j \<noteq> None"
  by (cases j) (simp_all add: is_record_def as_record_def)

text \<open>
  server.js answers a post of an object or an array with 200; it stores the stamped
  record and returns what \<^verbatim>\<open>JSON.stringify\<close> writes of it.
\<close>

lemma postColors_A_record:
  "as_record j = Some v \<Longrightarrow>
   postColors_A s u (Some j) c n =
     Respond (json_response 200
                (JObj [(''record'', to_json (stamped_record v u c (JStr (Number_toString n))))]))
       (s\<lparr>colors := kv_set (colors s) (Number_toString n)
                       (stamped_record v u c (JStr (Number_toString n)))\<rparr>)"
  by (simp add: postColors_A_def Let_def)

lemma postColors_A_result:
  "postColors_A s u (Some (JObj r)) c n =
     Respond (json_response 200 (JObj [(''record'', JObj (stamped r u c (JStr (Number_toString n))))]))
       (s\<lparr>colors := kv_set (colors s) (Number_toString n)
                       (Object (stamped r u c (JStr (Number_toString n))))\<rparr>)"
  by (simp add: postColors_A_record [of _ "Object r"] as_record_def stamped_record_simps to_json_def)

lemma postColors_A_array:
  "postColors_A s u (Some (JArr elems)) c n =
     Respond (json_response 200 (JObj [(''record'', JArr elems)]))
       (s\<lparr>colors := kv_set (colors s) (Number_toString n)
                       (Array elems (stamped [] u c (JStr (Number_toString n))))\<rparr>)"
  by (simp add: postColors_A_record [of _ "Array elems []"] as_record_def stamped_record_simps
        to_json_def)

lemma Number_of_u64_exact: "n < 2 ^ 53 \<Longrightarrow> Number_of_u64 n = n"
  by (simp add: Number_of_u64_def)

lemma getNextId_next:
  "counter s + 1 < 2 ^ 53 \<Longrightarrow> getNextId s = (s\<lparr>counter := counter s + 1\<rparr>, counter s + 1)"
  by (simp add: getNextId_def kv_sum_def Number_of_u64_def Let_def)

text \<open>
  part_000 answers 201 with the stamped record, which is also what it stores (while the
  counter is below \<open>2^53\<close>, where the conversion to a number is exact).
\<close>

lemma postColors_B_record:
  "counter s + 1 < 2 ^ 53 \<Longrightarrow> as_record j = Some v \<Longrightarrow>
   postColors_B s u (Some j) c =
     Respond (json_response 201
                (JObj [(''record'', to_json (stamped_record v u c (JNum (int (counter s + 1)))))]))
       (s\<lparr>counter := counter s + 1,
          colors := kv_set (colors s) (counter s + 1)
                      (stamped_record v u c (JNum (int (counter s + 1))))\<rparr>)"
  by (simp add: postColors_B_def getNextId_next Let_def)

lemma postColors_B_result:
  "counter s + 1 < 2 ^ 53 \<Longrightarrow>
   postColors_B s u (Some (JObj r)) c =
     Respond (json_response 201 (JObj [(''record'', JObj (stamped r u c (JNum (int (counter s + 1)))))]))
       (s\<lparr>counter := counter s + 1,
          colors := kv_set (colors s) (counter s + 1)
                      (Object (stamped r u c (JNum (int (counter s + 1)))))\<rparr>)"
  using postColors_B_record [of s "JObj r" "Object r" u c]
  by (simp add: as_record_def stamped_record_simps to_json_def)

text \<open>
  C6. The claim is that an authenticated post is answered 201 with the stored record,
  whose author, creation time and id are the server's. The stamping holds in both
  variants (\<open>stamped_fields\<close>), and part_000 answers 201 (\<open>postColors_B_result\<close>).
  server.js calls \<^verbatim>\<open>c.json({ record })\<close> without a status: its answer to a post is
  never 201, and for a record that parses as an object or an array it is 200.
\<close>

theorem postColors_A_status_200:
  "status (response_of (postColors_A s u parsed c n)) \<noteq> 201
   \<and> postColors_A s u (Some (JObj r)) c n =
       Respond (json_response 200 (JObj [(''record'', JObj (stamped r u c (JStr (Number_toString n))))]))
         (s\<lparr>colors := kv_set (colors s) (Number_toString n)
                         (Object (stamped r u c (JStr (Number_toString n))))\<rparr>)
   \<and> postColors_A s u (Some (JArr elems)) c n =
       Respond (json_response 200 (JObj [(''record'', JArr elems)]))
         (s\<lparr>colors := kv_set (colors s) (Number_toString n)
                         (Array elems (stamped [] u c (JStr (Number_toString n))))\<rparr>)"
proof -
  have "status (response_of (postColors_A s u parsed c n)) \<noteq> 201"
  proof (cases parsed)
    case None
    then show ?thesis
      by (simp add: postColors_A_def response_of_def internal_error_def)
  next
    case (Some j)
    then show ?thesis
      by (cases "as_record j")
         (simp_all add: postColors_A_def response_of_def internal_error_def json_response_def
            Let_def)
  qed
  then show ?thesis
    by (simp add: postColors_A_result postColors_A_array)
qed

text \<open>
  C5. The claim is that two posts always get distinct ids, also within one clock
  instant. In server.js the id is \<^verbatim>\<open>Date.now().toString()\<close> (line 69, commented as a
  unique id): two posts served while the clock shows the same millisecond \<open>now\<close> get the
  same id, the second record is stored under the key of the first, and the store holds
  as many records after both posts as after the first: the first record is lost.
\<close>

theorem postColors_A_same_instant:
  fixes s :: "string store" and u1 u2 c1 c2 :: string and r1 r2 :: jsobject and now :: nat
  defines "s1 \<equiv> store_after s (postColors_A s u1 (Some (JObj r1)) c1 now)"
  defines "s2 \<equiv> store_after s1 (postColors_A s1 u2 (Some (JObj r2)) c2 now)"
  shows "response_of (postColors_A s u1 (Some (JObj r1)) c1 now) =
           json_response 200 (JObj [(''record'', JObj (stamped r1 u1 c1 (JStr (Number_toString now))))])
       \<and> response_of (postColors_A s1 u2 (Some (JObj r2)) c2 now) =
           json_response 200 (JObj [(''record'', JObj (stamped r2 u2 c2 (JStr (Number_toString now))))])
       \<and> kv_get (colors s2) (Number_toString now) =
           Some (Object (stamped r2 u2 c2 (JStr (Number_toString now))))
       \<and> colors s2 =
           kv_set (colors s) (Number_toString now) (Object (stamped r2 u2 c2 (JStr (Number_toString now))))
       \<and> length (colors s2) = length (colors s1)"
proof -
  let ?k = "Number_toString now"
  have len: "length (kv_set es k v') = length (kv_set es k v)"
    for es :: "(string \<times> jsval) list" and k v v'
    by (induction es) auto
  have s1: "s1 = s\<lparr>colors := kv_set (colors s) ?k (Object (stamped r1 u1 c1 (JStr ?k)))\<rparr>"
    by (simp add: s1_def postColors_A_result store_after_def)
  have s2: "s2 = s\<lparr>colors := kv_set (colors s) ?k (Object (stamped r2 u2 c2 (JStr ?k)))\<rparr>"
    by (simp add: s2_def s1 postColors_A_result store_after_def kv_set_set)
  have "length (colors s2) = length (colors s1)"
    using len [of "colors s" ?k "Object (stamped r2 u2 c2 (JStr ?k))"
                 "Object (stamped r1 u1 c1 (JStr ?k))"]
    by (simp add: s1 s2)
  then show ?thesis
    by (simp add: s2 postColors_A_result response_of_def kv_get_set_same)
qed

section \<open>Listing the colour records\<close>

text \<open>What a post stores, and the colour records after a sequence of posts (server.js).\<close>

lemma post_A_stores:
  "is_record (fst (snd p)) \<Longrightarrow> post_A s p = s\<lparr>colors := kv_set (colors s) (id_A p) (stored_A p)\<rparr>"
  by (cases p) (auto simp: post_A_def id_A_def stored_A_def is_record_as_record postColors_A_record
        store_after_def)

lemma colors_after_posts_A:
  "list_all (\<lambda>p. is_record (fst (snd p))) ps \<Longrightarrow> sorted_wrt (<) (map id_A ps) \<Longrightarrow>
   colors (foldl post_A empty_store ps) = map (\<lambda>p. (id_A p, stored_A p)) ps"
proof (induction ps rule: rev_induct)
  case Nil
  show ?case by (simp add: empty_store_def)
next
  case (snoc p ps)
  from snoc.prems have ok: "is_record (fst (snd p))" and oks: "list_all (\<lambda>p. is_record (fst (snd p))) ps"
    by simp_all
  from snoc.prems(2) have sorted: "sorted_wrt (<) (map id_A ps)"
    and above: "\<forall>e \<in> set (map (\<lambda>p. (id_A p, stored_A p)) ps). fst e < id_A p"
    by (auto simp: sorted_wrt_append)
  from snoc.IH [OF oks sorted] kv_set_last [OF above, of "stored_A p"] show ?case
    by (simp add: post_A_stores [OF ok])
qed

text \<open>The listing of server.js finds the id of every stored record and flags the record.\<close>

lemma fav_of_stored_A:
  "is_record (fst (snd p)) \<Longrightarrow> fav_of_entry s u (stored_A p) = Some (isFavorite s u (id_A p))"
  by (cases p) (auto simp: fav_of_entry_def stored_A_def id_A_def is_record_as_record get_prop_set_same)

lemma listed_stored_A:
  "is_record (fst (snd p)) \<Longrightarrow>
   to_json (set_prop (stored_A p) ''isFavorite'' (JBool (isFavorite s u (id_A p)))) = listed_A s u p"
proof -
  assume ok: "is_record (fst (snd p))"
  obtain a j c n where p: "p = (a, j, c, n)" by (cases p)
  from ok p show ?thesis
    by (cases j)
       (simp_all add: is_record_def stored_A_def as_record_def id_A_def set_prop_def to_json_def)
qed

lemma collect_stored_A:
  "list_all (\<lambda>p. is_record (fst (snd p))) ps \<Longrightarrow>
   collect_A s u (map (\<lambda>p. (id_A p, stored_A p)) ps) acc =
     Some (acc @ map (\<lambda>p. set_prop (stored_A p) ''isFavorite'' (JBool (isFavorite s u (id_A p)))) ps)"
  by (induction ps arbitrary: acc) (simp_all add: fav_of_stored_A)

lemma getColors_A_after_posts:
  assumes "colors s = colors (foldl post_A empty_store ps)"
    and ok: "list_all (\<lambda>p. is_record (fst (snd p))) ps"
    and "sorted_wrt (<) (map id_A ps)"
  shows "getColors_A s u = Respond (json_response 200 (JArr (rev (map (listed_A s u) ps)))) s"
proof -
  from assms have cs: "colors s = map (\<lambda>p. (id_A p, stored_A p)) ps"
    by (simp add: colors_after_posts_A)
  have flagged: "map to_json (map (\<lambda>p. set_prop (stored_A p) ''isFavorite'' (JBool (isFavorite s u (id_A p)))) ps)
        = map (listed_A s u) ps"
    using ok by (induction ps) (simp_all add: listed_stored_A)
  show ?thesis
    by (simp add: getColors_A_def cs collect_stored_A [OF ok] rev_map [symmetric] flagged
          del: map_map)
qed

text \<open>The same for part_000, whose ids are the counter values 1, 2, ...\<close>

lemma post_B_stores:
  "is_record (fst (snd q)) \<Longrightarrow> counter s + 1 < 2 ^ 53 \<Longrightarrow>
   post_B s q =
     s\<lparr>counter := counter s + 1,
       colors := kv_set (colors s) (counter s + 1) (stored_B (counter s + 1, q))\<rparr>"
proof -
  assume ok: "is_record (fst (snd q))" and small: "counter s + 1 < 2 ^ 53"
  obtain a j c where q: "q = (a, j, c)" by (cases q)
  from ok q obtain v where v: "as_record j = Some v"
    by (auto simp: is_record_as_record)
  from postColors_B_record [OF small v, of a c] q v show ?thesis
    by (simp add: post_B_def stored_B_def store_after_def)
qed

lemma state_after_posts_B:
  "list_all (\<lambda>q. is_record (fst (snd q))) qs \<Longrightarrow> length qs < 2 ^ 53 \<Longrightarrow>
   counter (foldl post_B empty_store qs) = length qs
   \<and> colors (foldl post_B empty_store qs) = map (\<lambda>e. (fst e, stored_B e)) (enumerate 1 qs)"
proof (induction qs rule: rev_induct)
  case Nil
  show ?case by (simp add: empty_store_def)
next
  case (snoc q qs)
  let ?s = "foldl post_B empty_store qs"
  from snoc.prems have ok: "is_record (fst (snd q))"
    and oks: "list_all (\<lambda>q. is_record (fst (snd q))) qs" and len: "length qs < 2 ^ 53"
    and small: "length qs + 1 < 2 ^ 53"
    by simp_all
  from snoc.IH [OF oks len] have cnt: "counter ?s = length qs"
    and cs: "colors ?s = map (\<lambda>e. (fst e, stored_B e)) (enumerate 1 qs)"
    by simp_all
  have above: "\<forall>e \<in> set (colors ?s). fst e < length qs + 1"
    by (auto simp: cs in_set_enumerate_eq)
  from small cnt have small': "counter ?s + 1 < 2 ^ 53"
    by simp
  have "post_B ?s q =
      ?s\<lparr>counter := length qs + 1,
         colors := colors ?s @ [(length qs + 1, stored_B (length qs + 1, q))]\<rparr>"
    using post_B_stores [OF ok small'] kv_set_last [OF above, of "stored_B (length qs + 1, q)"]
    by (simp add: cnt)
  then show ?case
    by (simp add: cs enumerate_append_eq)
qed

lemma listed_stored_B:
  "is_record (fst (snd (snd e))) \<Longrightarrow> to_json (stored_B e) = listed_B e"
proof -
  assume ok: "is_record (fst (snd (snd e)))"
  obtain i a j c where e: "e = (i, a, j, c)" by (cases e)
  from ok e show ?thesis
    by (cases j)
       (simp_all add: is_record_def stored_B_def as_record_def set_prop_def to_json_def)
qed

lemma getColors_B_after_posts:
  assumes "colors s = colors (foldl post_B empty_store qs)"
    and ok: "list_all (\<lambda>q. is_record (fst (snd q))) qs"
    and len: "length qs < 2 ^ 53"
  shows "getColors_B s = Respond (json_response 200 (JArr (rev (map listed_B (enumerate 1 qs))))) s"
proof -
  from assms state_after_posts_B [OF ok len]
  have cs: "colors s = map (\<lambda>e. (fst e, stored_B e)) (enumerate 1 qs)"
    by simp
  have "snd e \<in> set qs" if "e \<in> set (enumerate 1 qs)" for e
    using that imageI [of e "set (enumerate 1 qs)" snd] by (simp flip: set_map)
  with ok have "\<forall>e \<in> set (enumerate 1 qs). is_record (fst (snd (snd e)))"
    by (auto simp: list_all_iff)
  then have listed: "map (\<lambda>e. to_json (stored_B e)) (enumerate 1 qs) = map listed_B (enumerate 1 qs)"
    by (simp add: listed_stored_B)
  have "map to_json (rev (map snd (colors s))) = rev (map listed_B (enumerate 1 qs))"
    unfolding listed [symmetric] by (simp add: cs rev_map o_def)
  then show ?thesis
    by (simp add: getColors_B_def Let_def)
qed

text \<open>The example stores are stores after posts.\<close>

lemma Number_toString_examples:
  "Number_toString 1700000000000 = ''1700000000000''"
  "Number_toString 1700000000001 = ''1700000000001''"
  "Number_toString 1700000000003 = ''1700000000003''"
  "Number_toString 1700000000005 = ''1700000000005''"
  by (simp_all add: Number_toString.simps char_of_def bit_Suc_0_iff)

lemma one_color_posted: "one_color = foldl post_B empty_store posts_one"
  by (simp add: one_color_def posts_one_def post_B_def empty_store_def store_after_def rec_one_def
        postColors_B_result obj_set_def)

lemma two_colors_posted: "colors two_colors = colors (foldl post_A empty_store posts_two)"
  by (simp add: two_colors_def posts_two_def post_A_def empty_store_def store_after_def rec_red_def
        rec_blue_def postColors_A_result obj_set_def Number_toString_examples)

text \<open>
  C7, as stated, fails in three ways. part_000 has no favourites: after one post by
  \<^verbatim>\<open>alice\<close> its listing returns the stored record as it is, without an \<^verbatim>\<open>isFavorite\<close>
  property. server.js lists by id and not by creation: when the clock is set back
  between two posts (\<^verbatim>\<open>Date.now()\<close> is 1700000000005 for the first and 1700000000003
  for the second), the record created first is listed first. And server.js lists a
  record that was submitted as a JSON array as its bare elements: the property
  \<^verbatim>\<open>isFavorite\<close> assigned to the array is not part of its JSON text.
\<close>

theorem getColors_not_as_claimed:
  "getColors_B one_color = Respond (json_response 200 (JArr [JObj rec_one])) one_color
   \<and> obj_get rec_one ''isFavorite'' = None
   \<and> getColors_A (foldl post_A empty_store posts_clock_back) ''alice'' =
       Respond (json_response 200
         (JArr [JObj [(''color'', JStr ''#ff0000''), (''author'', JStr ''alice''),
                      (''createdAt'', JStr ''2023-11-14T22:13:20.005Z''),
                      (''id'', JStr ''1700000000005''), (''isFavorite'', JBool False)],
                JObj [(''color'', JStr ''#0000ff''), (''author'', JStr ''bob''),
                      (''createdAt'', JStr ''2023-11-14T22:13:20.003Z''),
                      (''id'', JStr ''1700000000003''), (''isFavorite'', JBool False)]]))
         (foldl post_A empty_store posts_clock_back)
   \<and> getColors_A (post_A empty_store post_array) ''alice'' =
       Respond (json_response 200 (JArr [JArr [JStr ''#ff0000'']])) (post_A empty_store post_array)"
proof -
  have B: "getColors_B one_color = Respond (json_response 200 (JArr [JObj rec_one])) one_color"
    by (simp add: getColors_B_def one_color_def to_json_def)
  have no_flag: "obj_get rec_one ''isFavorite'' = None"
    by (simp add: rec_one_def obj_get_def)
  have s2: "foldl post_A empty_store posts_clock_back =
      \<lparr>users = [],
       colors = [(''1700000000003'',
                  Object [(''color'', JStr ''#0000ff''), (''author'', JStr ''bob''),
                          (''createdAt'', JStr ''2023-11-14T22:13:20.003Z''),
                          (''id'', JStr ''1700000000003'')]),
                 (''1700000000005'',
                  Object [(''color'', JStr ''#ff0000''), (''author'', JStr ''alice''),
                          (''createdAt'', JStr ''2023-11-14T22:13:20.005Z''),
                          (''id'', JStr ''1700000000005'')])],
       favorites = [], counter = 0\<rparr>"
    by (simp add: posts_clock_back_def post_A_def empty_store_def store_after_def
          postColors_A_result obj_set_def Number_toString_examples)
  have older_first: "getColors_A (foldl post_A empty_store posts_clock_back) ''alice'' =
       Respond (json_response 200
         (JArr [JObj [(''color'', JStr ''#ff0000''), (''author'', JStr ''alice''),
                      (''createdAt'', JStr ''2023-11-14T22:13:20.005Z''),
                      (''id'', JStr ''1700000000005''), (''isFavorite'', JBool False)],
                JObj [(''color'', JStr ''#0000ff''), (''author'', JStr ''bob''),
                      (''createdAt'', JStr ''2023-11-14T22:13:20.003Z''),
                      (''id'', JStr ''1700000000003''), (''isFavorite'', JBool False)]]))
         (foldl post_A empty_store posts_clock_back)"
    unfolding s2
    by (simp add: getColors_A_def fav_of_entry_def get_prop_def obj_get_def isFavorite_def kv_get_def
          set_prop_def obj_set_def to_json_def)
  have s3: "post_A empty_store post_array =
      \<lparr>users = [],
       colors = [(''1700000000000'',
                  Array [JStr ''#ff0000'']
                    [(''author'', JStr ''alice''), (''createdAt'', JStr ''2023-11-14T22:13:20.000Z''),
                     (''id'', JStr ''1700000000000'')])],
       favorites = [], counter = 0\<rparr>"
    by (simp add: post_array_def post_A_def empty_store_def store_after_def postColors_A_array
          obj_set_def Number_toString_examples)
  have arr: "getColors_A (post_A empty_store post_array) ''alice'' =
       Respond (json_response 200 (JArr [JArr [JStr ''#ff0000'']])) (post_A empty_store post_array)"
    unfolding s3
    by (simp add: getColors_A_def fav_of_entry_def get_prop_def obj_get_def isFavorite_def kv_get_def
          set_prop_def obj_set_def to_json_def)
  from B no_flag older_first arr show ?thesis by simp
qed

text \<open>
  C7, amended. Let the colour records of the store be those created by the posts \<open>ps\<close>,
  in this order, each of a JSON object or array. server.js: if each post got an id
  string greater than the ids of all posts before it, then for every user \<open>u\<close> the
  listing answers 200 with all the records, newest first (the reverse of \<open>ps\<close>), and
  leaves the store unchanged; a record submitted as an object is listed stamped and with
  \<^verbatim>\<open>isFavorite\<close> set to whether \<open>(u, id)\<close> is among the favourites, so the flag is \<^verbatim>\<open>true\<close>
  exactly for the records in the favourite set of \<open>u\<close>, the requesting user, and \<^verbatim>\<open>false\<close>
  for all others; a record submitted as an array is listed as its bare elements.
  part_000: if fewer than \<open>2^53\<close> posts were made, the listing answers 200 with all the
  records, newest first, as they are stored (the objects stamped with the ids 1, 2, ...),
  without a computed \<^verbatim>\<open>isFavorite\<close>.
\<close>

theorem getColors_reverse_creation_order:
  fixes s :: "string store" and s' :: "nat store"
  shows
    "(colors s = colors (foldl post_A empty_store ps)
        \<and> list_all (\<lambda>p. is_record (fst (snd p))) ps \<and> sorted_wrt (<) (map id_A ps)
      \<longrightarrow> getColors_A s u = Respond (json_response 200 (JArr (rev (map (listed_A s u) ps)))) s)
   \<and> (colors s' = colors (foldl post_B empty_store qs)
        \<and> list_all (\<lambda>q. is_record (fst (snd q))) qs \<and> length qs < 2 ^ 53
      \<longrightarrow> getColors_B s' =
            Respond (json_response 200 (JArr (rev (map listed_B (enumerate 1 qs))))) s')"
  using getColors_A_after_posts [of s ps u] getColors_B_after_posts [of s' qs]
  by blast

theorem getColors_reverse_creation_order_witness:
  "colors two_colors = colors (foldl post_A empty_store posts_two)
   \<and> list_all (\<lambda>p. is_record (fst (snd p))) posts_two
   \<and> sorted_wrt (<) (map id_A posts_two)
   \<and> getColors_A two_colors ''alice'' =
       Respond (json_response 200
         (JArr [JObj (rec_blue @ [(''isFavorite'', JBool True)]),
                JObj (rec_red @ [(''isFavorite'', JBool False)])])) two_colors
   \<and> colors one_color = colors (foldl post_B empty_store posts_one)
   \<and> list_all (\<lambda>q. is_record (fst (snd q))) posts_one
   \<and> length posts_one < 2 ^ 53
   \<and> getColors_B one_color = Respond (json_response 200 (JArr [JObj rec_one])) one_color"
proof -
  have ok: "list_all (\<lambda>p. is_record (fst (snd p))) posts_two"
    by (simp add: posts_two_def is_record_def)
  have sorted: "sorted_wrt (<) (map id_A posts_two)"
    by (simp add: posts_two_def id_A_def Number_toString_examples)
  have ok': "list_all (\<lambda>q. is_record (fst (snd q))) posts_one"
    by (simp add: posts_one_def is_record_def)
  have len: "length posts_one < 2 ^ 53"
    by (simp add: posts_one_def)
  have listed: "map (listed_A two_colors ''alice'') posts_two =
      [JObj (rec_red @ [(''isFavorite'', JBool False)]),
       JObj (rec_blue @ [(''isFavorite'', JBool True)])]"
    by (simp add: posts_two_def rec_red_def rec_blue_def obj_set_def isFavorite_def kv_get_def
          two_colors_def Number_toString_examples)
  have listed': "map listed_B (enumerate 1 posts_one) = [JObj rec_one]"
    by (simp add: posts_one_def rec_one_def obj_set_def enumerate_simps)
  from getColors_reverse_creation_order [of two_colors posts_two "''alice''" one_color posts_one]
       two_colors_posted one_color_posted ok sorted ok' len listed listed'
  show ?thesis
    by simp
qed

section \<open>Favourites\<close>

text \<open>
  C8. For every user \<open>u\<close> and record id \<open>i\<close>: from a store in which \<open>(u, i)\<close> is not a
  favourite, the first toggle answers \<^verbatim>\<open>{favorite: true}\<close> and leaves a store in which
  \<open>(u, i)\<close> is a favourite; the second toggle answers \<^verbatim>\<open>{favorite: false}\<close> and leaves
  the original store, in which \<open>(u, i)\<close> is again not a favourite.
\<close>

theorem toggle_twice:
  assumes "\<not> isFavorite s u i"
  shows "\<exists>s1. toggleFavorite s u i = Respond (json_response 200 (JObj [(''favorite'', JBool True)])) s1
           \<and> isFavorite s1 u i
           \<and> toggleFavorite s1 u i = Respond (json_response 200 (JObj [(''favorite'', JBool False)])) s
           \<and> \<not> isFavorite s u i"
proof -
  let ?s1 = "s\<lparr>favorites := kv_set (favorites s) (u, i) ()\<rparr>"
  from assms have none: "kv_get (favorites s) (u, i) = None"
    by (cases "kv_get (favorites s) (u, i)") (auto simp: isFavorite_def)
  have first: "toggleFavorite s u i = Respond (json_response 200 (JObj [(''favorite'', JBool True)])) ?s1"
    using none by (simp add: toggleFavorite_def)
  have now: "isFavorite ?s1 u i"
    by (simp add: isFavorite_def kv_get_set_same)
  have second: "toggleFavorite ?s1 u i = Respond (json_response 200 (JObj [(''favorite'', JBool False)])) s"
    using none by (simp add: toggleFavorite_def kv_get_set_same kv_delete_set)
  from first now second assms show ?thesis by blast
qed

theorem toggle_twice_witness:
  "\<not> isFavorite (bob_likes_3 :: string store) ''alice'' ''3''
   \<and> (\<exists>s1. toggleFavorite (bob_likes_3 :: string store) ''alice'' ''3'' =
             Respond (json_response 200 (JObj [(''favorite'', JBool True)])) s1
           \<and> isFavorite s1 ''alice'' ''3''
           \<and> toggleFavorite s1 ''alice'' ''3'' =
               Respond (json_response 200 (JObj [(''favorite'', JBool False)])) bob_likes_3)"
proof -
  have h: "\<not> isFavorite (bob_likes_3 :: string store) ''alice'' ''3''"
    by (simp add: isFavorite_def kv_get_def bob_likes_3_def)
  from toggle_twice [OF h] h show ?thesis by blast
qed

section \<open>The entry pages\<close>

lemma entry_pages_chain:
  "meth req = GET \<Longrightarrow> path req = [''signup.html''] \<or> path req = [''login.html''] \<Longrightarrow>
   chain routes_A req = [AuthPages, Static] \<and> chain routes_B req = [AuthPages, Static]"
  by (auto simp: chain_def routes_A_def routes_B_def route_matches_def)

text \<open>
  C10, as stated, fails for a cookie that is present with an empty value: the
  middleware tests the cookie's value for truthiness, the empty string is falsy, and the
  sign-up page is served although the request carries an \<^verbatim>\<open>auth_token\<close> cookie.
\<close>

theorem entry_pages_empty_cookie:
  "auth_token (get_request [''signup.html''] (Some [])) \<noteq> None
   \<and> dispatch_A lib0 ''k'' (get_request [''signup.html''] (Some [])) empty_store =
       (file_response ''signup page'', empty_store, [AuthPages, Static])
   \<and> dispatch_B lib0 ''k'' (get_request [''signup.html''] (Some [])) empty_store =
       (file_response ''signup page'', empty_store, [AuthPages, Static])"
  by (simp add: dispatch_A_def dispatch_B_def chain_def routes_A_def routes_B_def route_matches_def
        get_request_def exec_A_def exec_B_def authPages_def serveStatic_def truthy_def lib0_def)

text \<open>
  C10, amended. For every GET request to \<^verbatim>\<open>/signup.html\<close> or \<^verbatim>\<open>/login.html\<close>, in both
  variants: if the \<^verbatim>\<open>auth_token\<close> cookie has a non-empty value, the answer is a redirect
  to \<^verbatim>\<open>/index.html\<close> and only the middleware ran, so the token is not validated (the
  result is the same for every validation function, also one that rejects the token);
  if the cookie is absent or empty, the request is handed to the static files, which
  serve the page.
\<close>

theorem entry_pages_redirect:
  assumes "meth req = GET" and "path req = [''signup.html''] \<or> path req = [''login.html'']"
  shows "(truthy (auth_token req) \<longrightarrow>
            dispatch_A lib k req s = (redirect ''/index.html'', s, [AuthPages])
          \<and> dispatch_B lib k req s' = (redirect ''/index.html'', s', [AuthPages]))
       \<and> (\<not> truthy (auth_token req) \<longrightarrow>
            dispatch_A lib k req s =
              (case public_file lib (path req) of
                 Some content \<Rightarrow> (file_response content, s, [AuthPages, Static])
               | None \<Rightarrow> (not_found, s, [AuthPages, Static]))
          \<and> dispatch_B lib k req s' =
              (case public_file lib (path req) of
                 Some content \<Rightarrow> (file_response content, s', [AuthPages, Static])
               | None \<Rightarrow> (not_found, s', [AuthPages, Static])))"
  using entry_pages_chain [OF assms]
  by (simp add: dispatch_A_def dispatch_B_def exec_A_def exec_B_def authPages_def serveStatic_def
        split: option.splits)

theorem entry_pages_redirect_witness:
  "meth (get_request [''login.html''] (Some ''stale'')) = GET
   \<and> truthy (auth_token (get_request [''login.html''] (Some ''stale'')))
   \<and> jwt_validate lib0 ''stale'' ''k'' (gate_clock lib0) = None
   \<and> dispatch_A lib0 ''k'' (get_request [''login.html''] (Some ''stale'')) empty_store =
       (redirect ''/index.html'', empty_store, [AuthPages])
   \<and> dispatch_B lib0 ''k'' (get_request [''login.html''] (Some ''stale'')) empty_store =
       (redirect ''/index.html'', empty_store, [AuthPages])
   \<and> \<not> truthy (auth_token (get_request [''login.html''] None))
   \<and> dispatch_A lib0 ''k'' (get_request [''login.html''] None) empty_store =
       (file_response ''login page'', empty_store, [AuthPages, Static])
   \<and> dispatch_B lib0 ''k'' (get_request [''login.html''] None) empty_store =
       (file_response ''login page'', empty_store, [AuthPages, Static])"
proof -
  have get: "meth (get_request p t) = GET" "path (get_request p t) = p"
    "auth_token (get_request p t) = t" for p t
    by (simp_all add: get_request_def)
  have stale: "jwt_validate lib0 ''stale'' ''k'' (gate_clock lib0) = None"
    by (simp add: lib0_def validate0_def)
  have page: "public_file lib0 [''login.html''] = Some ''login page''"
    by (simp add: lib0_def)
  from entry_pages_redirect [of "get_request [''login.html''] (Some ''stale'')" lib0 "''k''"
         "empty_store" "empty_store"]
       entry_pages_redirect [of "get_request [''login.html''] None" lib0 "''k''"
         "empty_store" "empty_store"]
       stale page
  show ?thesis
    by (simp add: get truthy_def)
qed

end
